theory Spec2Isabelle
  imports Main
begin

section \<open>Boundary conditions for all axes of a grid (pde/grids/boundaries/axes.py)\<close>

text \<open>
  The module defines the class \<open>Boundaries\<close>, a list of one boundary pair per axis of a
  grid. Its collaborators (\<open>GridBase\<close>, \<open>BoundaryPair\<close>, \<open>get_boundary_axis\<close>) live in
  other modules; what \<open>Boundaries\<close> reads of them is modelled as record fields, and what
  it calls of them is a parameter of the function that calls it.

  Python objects have an identity (\<open>is\<close>) besides their value. Every object of the
  model carries its address, and a function that creates objects takes the next unused
  address and returns the one after its allocations. The objects here are never mutated
  after their construction, so an address and the fields stored with it describe the
  object completely.
\<close>

subsection \<open>Errors\<close>

datatype error =
    BCDataError string
  | PeriodicityError string
  | AssertionError
  | IndexError
  | RuntimeError string
  | OtherError string

subsection \<open>Objects\<close>

text \<open>The state of the allocation of objects: the next unused address.\<close>

type_synonym heap = nat

text \<open>What \<open>Boundaries\<close> reads of a grid: \<open>num_axes\<close> and \<open>periodic\<close>.\<close>

record GridBase =
  grid_id :: nat
  num_axes :: int
  periodic :: "bool list"

text \<open>
  What \<open>Boundaries\<close> reads of a boundary pair: the attributes \<open>grid\<close>, \<open>axis\<close> and
  \<open>periodic\<close>. The value data of the conditions of the pair (one condition when the
  axis is periodic, the low and the high one otherwise) are objects of their own: each
  is stored at an address and has a content, which is kept opaque.
\<close>

record 'v BoundaryPair =
  pair_id :: nat
  pair_grid :: GridBase
  pair_axis :: int
  pair_periodic :: bool
  pair_values :: "(nat \<times> 'v) list"

text \<open>The addresses of a pair: its own and the ones of its value data.\<close>

definition pair_addresses :: "'v BoundaryPair \<Rightarrow> nat list" where
  "pair_addresses bc = pair_id bc # map fst (pair_values bc)"

text \<open>An instance of \<open>Boundaries\<close>: the attribute \<open>grid\<close> and the list content.\<close>

record 'v Boundaries =
  self_id :: nat
  grid :: GridBase
  pairs :: "'v BoundaryPair list"

subsection \<open>Formatting of messages\<close>

fun str_nat :: "nat \<Rightarrow> string" where
  "str_nat n =
     (if n < 10 then [''0123456789'' ! n]
      else str_nat (n div 10) @ [''0123456789'' ! (n mod 10)])"

declare str_nat.simps [simp del]

definition str_int :: "int \<Rightarrow> string" where
  "str_int i = (if i < 0 then ''-'' @ str_nat (nat (- i)) else str_nat (nat i))"

definition str_bool :: "bool \<Rightarrow> string" where
  "str_bool b = (if b then ''True'' else ''False'')"

subsection \<open>The constructor\<close>

text \<open>
  The loop \<open>for axis, boundary in enumerate(boundaries)\<close> of \<open>__init__\<close>; \<open>geq\<close> is
  \<open>GridBase.__eq__\<close>, which \<open>!=\<close> negates. Reading \<open>self.grid.periodic[axis]\<close> beyond
  the end of the list raises \<open>IndexError\<close>.
\<close>

fun check_consistency ::
  "(GridBase \<Rightarrow> GridBase \<Rightarrow> bool) \<Rightarrow> GridBase \<Rightarrow> nat \<Rightarrow> 'v BoundaryPair list \<Rightarrow> error option"
where
  "check_consistency geq g axis [] = None"
| "check_consistency geq g axis (boundary # rest) =
     (if \<not> geq (pair_grid boundary) g then
        Some (BCDataError ''Boundaries are not defined on the same grid'')
      else if pair_axis boundary \<noteq> int axis then
        Some (BCDataError ''Boundaries need to be ordered like the respective axes'')
      else if length (periodic g) \<le> axis then Some IndexError
      else if pair_periodic boundary \<noteq> periodic g ! axis then
        Some (PeriodicityError
          (''Periodicity specified in the boundaries conditions is not '' @
           ''compatible with the grid ('' @ str_bool (pair_periodic boundary) @ '' != '' @
           str_bool (periodic g ! axis) @ '' for axis '' @ str_nat axis @ '')''))
      else check_consistency geq g (Suc axis) rest)"

text \<open>
  \<open>Boundaries(boundaries)\<close>: the object is allocated at address \<open>h\<close>, then \<open>__init__\<close>
  runs; when it raises, the caller gets the exception and no object.
\<close>

definition Boundaries_init ::
  "(GridBase \<Rightarrow> GridBase \<Rightarrow> bool) \<Rightarrow> 'v BoundaryPair list \<Rightarrow> heap \<Rightarrow>
   (error + 'v Boundaries) \<times> heap"
where
  "Boundaries_init geq boundaries h =
     (case boundaries of
        [] \<Rightarrow> (Inl (BCDataError ''List of boundaries must not be empty''), Suc h)
      | first # _ \<Rightarrow>
          (let g = pair_grid first in
           if int (length boundaries) \<noteq> num_axes g then
             (Inl (BCDataError
                (''Need boundary conditions for '' @ str_int (num_axes g) @ '' axes'')), Suc h)
           else
             (case check_consistency geq g 0 boundaries of
                Some e \<Rightarrow> (Inl e, Suc h)
              | None \<Rightarrow> (Inr \<lparr>self_id = h, grid = g, pairs = boundaries\<rparr>, Suc h))))"

subsection \<open>Data accepted by \<open>from_data\<close>\<close>

text \<open>
  The argument \<open>boundaries\<close> of \<open>from_data\<close> is tested with \<open>isinstance\<close>,
  \<open>==\<close> against strings and \<open>hasattr(boundaries, "__len__")\<close>: it is an instance of
  \<open>Boundaries\<close>, a string, a dictionary, another object with a length (a list or a
  tuple, whose elements are data again), or an object without a length. The content of
  a dictionary and of an object without a length is opaque.
\<close>

datatype ('v, 'd) bc_data =
    DBoundaries "'v Boundaries"
  | DStr string
  | DDict 'd
  | DSeq "('v, 'd) bc_data list"
  | DOther 'd

text \<open>
  What \<open>from_data\<close> calls of other modules: \<open>GridBase.__eq__\<close>,
  \<open>get_boundary_axis(grid, axis, data, rank)\<close>, which creates a boundary pair or raises,
  \<open>check_value_rank\<close> of a pair, which raises or returns nothing, the formatting of the
  data in the error message and \<open>BoundaryPair.get_help()\<close>.
\<close>

record ('v, 'd) externals =
  grid_eq :: "GridBase \<Rightarrow> GridBase \<Rightarrow> bool"
  get_boundary_axis ::
    "GridBase \<Rightarrow> int \<Rightarrow> ('v, 'd) bc_data \<Rightarrow> int \<Rightarrow> heap \<Rightarrow> (error + 'v BoundaryPair) \<times> heap"
  pair_check_value_rank :: "'v BoundaryPair \<Rightarrow> int \<Rightarrow> error option"
  data_str :: "('v, 'd) bc_data \<Rightarrow> string"
  pair_get_help :: string

subsection \<open>\<open>check_value_rank\<close> and \<open>get_help\<close>\<close>

fun check_value_rank_loop ::
  "('v BoundaryPair \<Rightarrow> int \<Rightarrow> error option) \<Rightarrow> 'v BoundaryPair list \<Rightarrow> int \<Rightarrow> error option"
where
  "check_value_rank_loop chk [] rank = None"
| "check_value_rank_loop chk (b # rest) rank =
     (case chk b rank of
        Some e \<Rightarrow> Some e
      | None \<Rightarrow> check_value_rank_loop chk rest rank)"

definition check_value_rank ::
  "('v BoundaryPair \<Rightarrow> int \<Rightarrow> error option) \<Rightarrow> 'v Boundaries \<Rightarrow> int \<Rightarrow> error option"
where
  "check_value_rank chk self rank = check_value_rank_loop chk (pairs self) rank"

definition get_help :: "string \<Rightarrow> string" where
  "get_help pair_help =
     ''Boundary conditions for each axis are set using a list: [bc_x, bc_y, '' @
     ''bc_z]. If the associated axis is periodic, the boundary condition needs '' @
     ''to be set to '' @ [CHR 0x27] @ ''periodic'' @ [CHR 0x27] @ ''. Otherwise, '' @ pair_help"

subsection \<open>\<open>from_data\<close>\<close>

text \<open>\<open>boundaries == "..."\<close>: only a string is equal to a string.\<close>

definition py_eq_str :: "('v, 'd) bc_data \<Rightarrow> string \<Rightarrow> bool" where
  "py_eq_str boundaries s = (case boundaries of DStr t \<Rightarrow> t = s | _ \<Rightarrow> False)"

text \<open>
  The conversion of the natural boundary conditions: each of the three loops appends one
  string for every entry of \<open>grid.periodic\<close>. Other data is left as it is.
\<close>

definition convert_natural :: "GridBase \<Rightarrow> ('v, 'd) bc_data \<Rightarrow> int \<Rightarrow> ('v, 'd) bc_data" where
  "convert_natural g boundaries rank =
     (if py_eq_str boundaries ''natural'' \<or> py_eq_str boundaries ''auto_periodic_neumann'' then
        DSeq (map (\<lambda>is_periodic.
                if is_periodic then DStr ''periodic''
                else if rank = 0 then DStr ''neumann''
                else DStr ''neumann'') (periodic g))
      else if py_eq_str boundaries ''auto_periodic_dirichlet'' then
        DSeq (map (\<lambda>is_periodic.
                if is_periodic then DStr ''periodic''
                else if rank = 0 then DStr ''dirichlet''
                else DStr ''dirichlet'') (periodic g))
      else if py_eq_str boundaries ''auto_periodic_curvature'' then
        DSeq (map (\<lambda>is_periodic.
                if is_periodic then DStr ''periodic''
                else if rank = 0 then DStr ''curvature''
                else DStr ''curvature'') (periodic g))
      else boundaries)"

text \<open>
  A list comprehension \<open>[f(x) for x in xs]\<close> whose \<open>f\<close> creates objects and may raise:
  the first exception ends it.
\<close>

fun comprehension ::
  "('a \<Rightarrow> heap \<Rightarrow> (error + 'b) \<times> heap) \<Rightarrow> 'a list \<Rightarrow> heap \<Rightarrow> (error + 'b list) \<times> heap"
where
  "comprehension f [] h = (Inr [], h)"
| "comprehension f (x # xs) h =
     (case f x h of
        (Inl e, h1) \<Rightarrow> (Inl e, h1)
      | (Inr y, h1) \<Rightarrow>
          (case comprehension f xs h1 of
             (Inl e, h2) \<Rightarrow> (Inl e, h2)
           | (Inr ys, h2) \<Rightarrow> (Inr (y # ys), h2)))"

text \<open>\<open>isinstance(boundaries, (str, dict))\<close>\<close>

definition is_str_or_dict :: "('v, 'd) bc_data \<Rightarrow> bool" where
  "is_str_or_dict boundaries =
     (case boundaries of DStr _ \<Rightarrow> True | DDict _ \<Rightarrow> True | _ \<Rightarrow> False)"

text \<open>The assignment \<open>bcs = [...]\<close> of a list whose creation may have raised.\<close>

definition assign_bcs ::
  "(error + 'v BoundaryPair list) \<times> heap \<Rightarrow> (error + 'v BoundaryPair list option) \<times> heap"
where
  "assign_bcs r =
     (case r of
        (Inl e, h1) \<Rightarrow> (Inl e, h1)
      | (Inr bcs, h1) \<Rightarrow> (Inr (Some bcs), h1))"

text \<open>
  The list \<open>bcs\<close> of \<open>from_data\<close>, \<open>None\<close> when no format applies. A list or a tuple
  has a length, an opaque object has none; an instance of \<open>Boundaries\<close> has been
  returned before and does not get here.
\<close>

definition make_bcs ::
  "('v, 'd) externals \<Rightarrow> GridBase \<Rightarrow> ('v, 'd) bc_data \<Rightarrow> int \<Rightarrow> heap \<Rightarrow>
   (error + 'v BoundaryPair list option) \<times> heap"
where
  "make_bcs ext g boundaries rank h =
     (if is_str_or_dict boundaries then
        assign_bcs
          (comprehension (\<lambda>i. get_boundary_axis ext g (int i) boundaries rank)
             [0 ..< nat (num_axes g)] h)
      else
        (case boundaries of
           DSeq xs \<Rightarrow>
             if int (length xs) = num_axes g then
               assign_bcs
                 (comprehension
                    (\<lambda>(i, boundary). get_boundary_axis ext g (int i) boundary rank)
                    (enumerate 0 xs) h)
             else if num_axes g = 1 \<and> length xs = 2 then
               assign_bcs
                 (case get_boundary_axis ext g 0 boundaries rank h of
                    (Inl e, h1) \<Rightarrow> (Inl e, h1)
                  | (Inr bc, h1) \<Rightarrow> (Inr [bc], h1))
             else (Inr None, h)
         | _ \<Rightarrow> (Inr None, h)))"

definition from_data ::
  "('v, 'd) externals \<Rightarrow> GridBase \<Rightarrow> ('v, 'd) bc_data \<Rightarrow> int \<Rightarrow> heap \<Rightarrow>
   (error + 'v Boundaries) \<times> heap"
where
  "from_data ext g boundaries rank h =
     (case boundaries of
        DBoundaries b \<Rightarrow>
          if \<not> grid_eq ext (grid b) g then (Inl AssertionError, h)
          else
            (case check_value_rank (pair_check_value_rank ext) b rank of
               Some e \<Rightarrow> (Inl e, h)
             | None \<Rightarrow> (Inr b, h))
      | _ \<Rightarrow>
          (let converted = convert_natural g boundaries rank in
           case make_bcs ext g converted rank h of
             (Inl e, h1) \<Rightarrow> (Inl e, h1)
           | (Inr None, h1) \<Rightarrow>
               (Inl (BCDataError
                  (''Unsupported boundary format: `'' @ data_str ext converted @ ''`. '' @
                   get_help (pair_get_help ext))), h1)
           | (Inr (Some bcs), h1) \<Rightarrow> Boundaries_init (grid_eq ext) bcs h1))"

subsection \<open>Equality, copy and the property \<open>periodic\<close>\<close>

text \<open>
  \<open>__eq__\<close>: the equality of lists (same length, and the elements identical or equal
  by \<open>peq\<close>, the \<open>__eq__\<close> of boundary pairs) and the equality of the grids.
\<close>

definition Boundaries_eq ::
  "(GridBase \<Rightarrow> GridBase \<Rightarrow> bool) \<Rightarrow> ('v BoundaryPair \<Rightarrow> 'v BoundaryPair \<Rightarrow> bool) \<Rightarrow>
   'v Boundaries \<Rightarrow> 'v Boundaries \<Rightarrow> bool"
where
  "Boundaries_eq geq peq self other =
     (list_all2 (\<lambda>a b. a = b \<or> peq a b) (pairs self) (pairs other) \<and>
      geq (grid self) (grid other))"

text \<open>
  Modelled from the spec: \<open>BoundaryPair.copy\<close> is not part of this module. The spec
  says of it: "deep-copies value data; shares the grid reference", and of the copies of
  boundary conditions: "copies are deep (value data duplicated, grid reference shared)".
  Every value data of the pair is duplicated: the duplicate is a new object, at a new
  address, with the content of the original.
\<close>

fun copy_values :: "(nat \<times> 'v) list \<Rightarrow> heap \<Rightarrow> (nat \<times> 'v) list \<times> heap" where
  "copy_values [] h = ([], h)"
| "copy_values ((a, v) # rest) h =
     (case copy_values rest (Suc h) of (cs, h1) \<Rightarrow> ((h, v) # cs, h1))"

text \<open>
  Modelled from the spec: \<open>BoundaryPair.copy\<close>, as above. The copy is a new object
  with the attributes of the original, the same grid object and duplicates of the value
  data.
\<close>

definition pair_copy :: "'v BoundaryPair \<Rightarrow> heap \<Rightarrow> 'v BoundaryPair \<times> heap" where
  "pair_copy bc h =
     (case copy_values (pair_values bc) (Suc h) of
        (vs, h1) \<Rightarrow> (bc\<lparr>pair_id := h, pair_values := vs\<rparr>, h1))"

fun copy_pairs :: "'v BoundaryPair list \<Rightarrow> heap \<Rightarrow> 'v BoundaryPair list \<times> heap" where
  "copy_pairs [] h = ([], h)"
| "copy_pairs (bc # rest) h =
     (case pair_copy bc h of
        (c, h1) \<Rightarrow> (case copy_pairs rest h1 of (cs, h2) \<Rightarrow> (c # cs, h2)))"

definition copy ::
  "(GridBase \<Rightarrow> GridBase \<Rightarrow> bool) \<Rightarrow> 'v Boundaries \<Rightarrow> heap \<Rightarrow> (error + 'v Boundaries) \<times> heap"
where
  "copy geq self h =
     (case copy_pairs (pairs self) h of (bcs, h1) \<Rightarrow> Boundaries_init geq bcs h1)"

definition Boundaries_periodic :: "'v Boundaries \<Rightarrow> bool list" where
  "Boundaries_periodic self = periodic (grid self)"

subsection \<open>Ghost cells\<close>

text \<open>
  A ghost cell setter changes the full array in place; in the model it takes the array
  and the additional arguments and returns the array after the call. \<open>pset\<close> is
  \<open>set_ghost_cells\<close> of a boundary pair, \<open>pmake\<close> its \<open>make_ghost_cell_setter\<close>.
\<close>

fun set_ghost_cells_loop ::
  "('p \<Rightarrow> 'arr \<Rightarrow> 'args \<Rightarrow> 'arr) \<Rightarrow> 'p list \<Rightarrow> 'arr \<Rightarrow> 'args \<Rightarrow> 'arr"
where
  "set_ghost_cells_loop pset [] data_full args = data_full"
| "set_ghost_cells_loop pset (b # rest) data_full args =
     set_ghost_cells_loop pset rest (pset b data_full args) args"

definition set_ghost_cells ::
  "('v BoundaryPair \<Rightarrow> 'arr \<Rightarrow> 'args \<Rightarrow> 'arr) \<Rightarrow> 'v Boundaries \<Rightarrow> 'arr \<Rightarrow> 'args \<Rightarrow> 'arr"
where
  "set_ghost_cells pset self data_full args =
     set_ghost_cells_loop pset (pairs self) data_full args"

text \<open>The helper \<open>chain\<close>; \<open>fs[0]\<close> of an empty tuple raises \<open>IndexError\<close>.\<close>

fun chain ::
  "('arr \<Rightarrow> 'args \<Rightarrow> 'arr) list \<Rightarrow> ('arr \<Rightarrow> 'args \<Rightarrow> 'arr) option \<Rightarrow>
   error + ('arr \<Rightarrow> 'args \<Rightarrow> 'arr)"
where
  "chain [] inner = Inl IndexError"
| "chain (first # rest) inner =
     (let wrap =
        (case inner of
           None \<Rightarrow> (\<lambda>data_full args. first data_full args)
         | Some inner_f \<Rightarrow> (\<lambda>data_full args. first (inner_f data_full args) args))
      in if rest \<noteq> [] then chain rest (Some wrap) else Inr wrap)"

definition make_ghost_cell_setter ::
  "('v BoundaryPair \<Rightarrow> 'arr \<Rightarrow> 'args \<Rightarrow> 'arr) \<Rightarrow> 'v Boundaries \<Rightarrow>
   error + ('arr \<Rightarrow> 'args \<Rightarrow> 'arr)"
where
  "make_ghost_cell_setter pmake self = chain (map pmake (pairs self)) None"

subsection \<open>The readings of the data, in the words of the specification\<close>

text \<open>
  The expansion of a natural keyword: one keyword for every entry of \<open>grid.periodic\<close>,
  \<open>"periodic"\<close> where the entry is true and the kind of the keyword elsewhere.
\<close>

definition keyword_per_axis :: "string \<Rightarrow> GridBase \<Rightarrow> ('v, 'd) bc_data" where
  "keyword_per_axis kind g =
     DSeq (map (\<lambda>is_periodic. DStr (if is_periodic then ''periodic'' else kind)) (periodic g))"

text \<open>The collection for a list of pairs that may have failed to be created.\<close>

definition construct ::
  "('v, 'd) externals \<Rightarrow> (error + 'v BoundaryPair list) \<times> heap \<Rightarrow> (error + 'v Boundaries) \<times> heap"
where
  "construct ext r =
     (case r of
        (Inl e, h1) \<Rightarrow> (Inl e, h1)
      | (Inr bcs, h1) \<Rightarrow> Boundaries_init (grid_eq ext) bcs h1)"

text \<open>
  The reading by axis of a sequence: the element at position \<open>i\<close> is the data of axis
  \<open>i\<close>. The reading as low and high side: the sequence as a whole is the data of the
  single axis 0.
\<close>

definition axis_wise ::
  "('v, 'd) externals \<Rightarrow> GridBase \<Rightarrow> ('v, 'd) bc_data list \<Rightarrow> int \<Rightarrow> heap \<Rightarrow>
   (error + 'v Boundaries) \<times> heap"
where
  "axis_wise ext g xs rank h =
     construct ext
       (comprehension (\<lambda>i. get_boundary_axis ext g (int i) (xs ! i) rank) [0 ..< length xs] h)"

definition low_high ::
  "('v, 'd) externals \<Rightarrow> GridBase \<Rightarrow> ('v, 'd) bc_data list \<Rightarrow> int \<Rightarrow> heap \<Rightarrow>
   (error + 'v Boundaries) \<times> heap"
where
  "low_high ext g xs rank h =
     construct ext
       (comprehension (\<lambda>i. get_boundary_axis ext g (int i) (DSeq xs) rank) [0 ..< 1] h)"

subsection \<open>Concrete objects\<close>

text \<open>
  Grids and pairs on which the theorems below are evaluated: a grid with two axes, the
  second one periodic, a second grid object with the same data, and a grid with one
  axis; the pair of the first axis with a low and a high condition, the pair of the
  second axis with its periodic condition.
\<close>

definition grid_2d :: GridBase where
  "grid_2d = \<lparr>grid_id = 1, num_axes = 2, periodic = [False, True]\<rparr>"

definition grid_2d_twin :: GridBase where
  "grid_2d_twin = \<lparr>grid_id = 2, num_axes = 2, periodic = [False, True]\<rparr>"

definition grid_1d :: GridBase where
  "grid_1d = \<lparr>grid_id = 3, num_axes = 1, periodic = [False]\<rparr>"

definition pair_x :: "string BoundaryPair" where
  "pair_x = \<lparr>pair_id = 4, pair_grid = grid_2d, pair_axis = 0, pair_periodic = False,
     pair_values = [(5, ''neumann''), (6, ''neumann'')]\<rparr>"

definition pair_y :: "string BoundaryPair" where
  "pair_y = \<lparr>pair_id = 7, pair_grid = grid_2d, pair_axis = 1, pair_periodic = True,
     pair_values = [(8, ''periodic'')]\<rparr>"

text \<open>
  An equality of grids that compares their data and not their identity, as a grid class
  that defines \<open>__eq__\<close> on its attributes has it.
\<close>

definition grid_eq_by_value :: "GridBase \<Rightarrow> GridBase \<Rightarrow> bool" where
  "grid_eq_by_value a b = (num_axes a = num_axes b \<and> periodic a = periodic b)"

text \<open>
  A small stand-in for \<open>get_boundary_axis\<close>, only to evaluate \<open>from_data\<close> on
  concrete data: a string gives the axis that one condition and is periodic when it is
  \<open>"periodic"\<close>; a sequence of two strings gives the low and the high condition.
\<close>

fun simple_get_boundary_axis ::
  "GridBase \<Rightarrow> int \<Rightarrow> (string, unit) bc_data \<Rightarrow> int \<Rightarrow> heap \<Rightarrow>
   (error + string BoundaryPair) \<times> heap"
where
  "simple_get_boundary_axis g i (DStr s) rank h =
     (Inr \<lparr>pair_id = h, pair_grid = g, pair_axis = i, pair_periodic = (s = ''periodic''),
        pair_values = [(Suc h, s)]\<rparr>, h + 2)"
| "simple_get_boundary_axis g i (DSeq [DStr lo, DStr hi]) rank h =
     (Inr \<lparr>pair_id = h, pair_grid = g, pair_axis = i, pair_periodic = False,
        pair_values = [(Suc h, lo), (h + 2, hi)]\<rparr>, h + 3)"
| "simple_get_boundary_axis g i data rank h = (Inl (BCDataError ''unknown condition''), h)"

definition simple_ext :: "(string, unit) externals" where
  "simple_ext =
     \<lparr>grid_eq = (=), get_boundary_axis = simple_get_boundary_axis,
      pair_check_value_rank = (\<lambda>bc rank. None), data_str = (\<lambda>data. ''...''),
      pair_get_help = []\<rparr>"

text \<open>
  A ghost cell setter that only records that it ran: the array is the list of the axes
  whose setters have been called so far.
\<close>

definition log_axis :: "'v BoundaryPair \<Rightarrow> int list \<Rightarrow> 'args \<Rightarrow> int list" where
  "log_axis b calls args = calls @ [pair_axis b]"

text \<open>
  An equality of boundary pairs that compares their attributes and the content of their
  value data.
\<close>

definition pair_eq_by_value :: "'v BoundaryPair \<Rightarrow> 'v BoundaryPair \<Rightarrow> bool" where
  "pair_eq_by_value a b =
     (pair_grid a = pair_grid b \<and> pair_axis a = pair_axis b \<and>
      pair_periodic a = pair_periodic b \<and>
      map snd (pair_values a) = map snd (pair_values b))"

section \<open>Properties\<close>

subsection \<open>The constructor and the collections it builds\<close>

text \<open>
  C9. An empty list of boundaries given to the constructor raises \<open>BCDataError\<close> with the
  message that the list must not be empty, whatever the comparison of grids is; the
  caller gets the error and no collection.
\<close>

theorem empty_list_rejected:
  "Boundaries_init geq [] h =
     (Inl (BCDataError ''List of boundaries must not be empty''), Suc h)"
  by (simp add: Boundaries_init_def)

lemma check_consistency_None_iff:
  "check_consistency geq g k bs = None \<longleftrightarrow>
     (\<forall>i<length bs. geq (pair_grid (bs ! i)) g \<and> pair_axis (bs ! i) = int (k + i) \<and>
        k + i < length (periodic g) \<and> pair_periodic (bs ! i) = periodic g ! (k + i))"
proof (induction bs arbitrary: k)
  case Nil
  show ?case by simp
next
  case (Cons b bs)
  show ?case
    by (auto simp: Cons.IH All_less_Suc2 not_le)
qed

lemma Boundaries_init_Inr_iff:
  "Boundaries_init geq bs h = (Inr b, h') \<longleftrightarrow>
     bs \<noteq> [] \<and> int (length bs) = num_axes (pair_grid (hd bs)) \<and>
     check_consistency geq (pair_grid (hd bs)) 0 bs = None \<and>
     b = \<lparr>self_id = h, grid = pair_grid (hd bs), pairs = bs\<rparr> \<and> h' = Suc h"
  by (cases bs) (auto simp: Boundaries_init_def Let_def split: option.splits)

lemma comprehension_length:
  "comprehension f xs h = (Inr ys, h') \<Longrightarrow> length ys = length xs"
proof (induction xs arbitrary: ys h)
  case Nil
  then show ?case by simp
next
  case (Cons x xs)
  then show ?case
    by (auto split: prod.splits sum.splits)
qed

lemma length_nat_nonempty:
  "length bcs = nat n \<Longrightarrow> bcs \<noteq> [] \<Longrightarrow> int (length bcs) = n"
  by (cases bcs) auto

lemma make_bcs_length:
  assumes "make_bcs ext g data rank h = (Inr (Some bcs), h1)" and "bcs \<noteq> []"
  shows "int (length bcs) = num_axes g"
proof (cases data)
  case (DStr s)
  with assms(1) obtain "comprehension (\<lambda>i. get_boundary_axis ext g (int i) data rank)
      [0 ..< nat (num_axes g)] h = (Inr bcs, h1)"
    by (auto simp: make_bcs_def is_str_or_dict_def assign_bcs_def split: prod.splits sum.splits)
  then have "length bcs = nat (num_axes g)"
    by (auto dest: comprehension_length)
  with assms(2) length_nat_nonempty [of bcs "num_axes g"] show ?thesis by blast
next
  case (DDict d)
  with assms(1) obtain "comprehension (\<lambda>i. get_boundary_axis ext g (int i) data rank)
      [0 ..< nat (num_axes g)] h = (Inr bcs, h1)"
    by (auto simp: make_bcs_def is_str_or_dict_def assign_bcs_def split: prod.splits sum.splits)
  then have "length bcs = nat (num_axes g)"
    by (auto dest: comprehension_length)
  with assms(2) length_nat_nonempty [of bcs "num_axes g"] show ?thesis by blast
next
  case (DSeq xs)
  show ?thesis
  proof (cases "int (length xs) = num_axes g")
    case True
    with DSeq assms(1) have "comprehension
        (\<lambda>(i, boundary). get_boundary_axis ext g (int i) boundary rank) (enumerate 0 xs) h =
        (Inr bcs, h1)"
      by (auto simp: make_bcs_def is_str_or_dict_def assign_bcs_def split: prod.splits sum.splits)
    then have "length bcs = length xs"
      by (auto dest: comprehension_length)
    with True show ?thesis by simp
  next
    case False
    with DSeq assms(1) show ?thesis
      by (auto simp: make_bcs_def is_str_or_dict_def assign_bcs_def
          split: prod.splits sum.splits if_splits)
  qed
next
  case (DBoundaries b)
  with assms(1) show ?thesis by (simp add: make_bcs_def is_str_or_dict_def)
next
  case (DOther d)
  with assms(1) show ?thesis by (simp add: make_bcs_def is_str_or_dict_def)
qed

lemma from_data_built:
  assumes "from_data ext g data rank h = (Inr b, h')" and "\<forall>x. data \<noteq> DBoundaries x"
  shows "\<exists>bcs h1. make_bcs ext g (convert_natural g data rank) rank h = (Inr (Some bcs), h1) \<and>
           Boundaries_init (grid_eq ext) bcs h1 = (Inr b, h')"
  using assms
  by (cases data) (auto simp: from_data_def Let_def split: prod.splits sum.splits option.splits)


lemma Boundaries_init_built:
  assumes "Boundaries_init geq bs h = (Inr b, h')"
  shows "grid b = pair_grid (hd bs) \<and> pairs b = bs \<and>
      int (length (pairs b)) = num_axes (grid b) \<and>
      (\<forall>i<length (pairs b). pair_axis (pairs b ! i) = int i)"
  using assms by (auto simp: Boundaries_init_Inr_iff check_consistency_None_iff)

lemma Boundaries_init_raises:
  "\<exists>r. Boundaries_init geq bs h = (r, Suc h)"
  by (cases bs) (auto simp: Boundaries_init_def Let_def split: option.splits)

lemma Boundaries_init_refused:
  assumes "bs = [] \<or> int (length bs) \<noteq> num_axes (pair_grid (hd bs)) \<or>
        (\<exists>i<length bs. pair_axis (bs ! i) \<noteq> int i)"
  shows "\<exists>e. Boundaries_init geq bs h = (Inl e, Suc h)"
proof -
  obtain r where r: "Boundaries_init geq bs h = (r, Suc h)"
    using Boundaries_init_raises by blast
  show ?thesis
  proof (cases r)
    case (Inl e)
    with r show ?thesis by simp
  next
    case (Inr b)
    with r assms show ?thesis
      by (auto simp: Boundaries_init_Inr_iff check_consistency_None_iff)
  qed
qed

lemma from_data_made:
  assumes "\<forall>x. data \<noteq> DBoundaries x" and "from_data ext g data rank k = (Inr c, k')"
  shows "int (length (pairs c)) = num_axes g \<and>
      (\<forall>i<length (pairs c). pair_axis (pairs c ! i) = int i)"
proof -
  from assms obtain bcs h1 where
    m: "make_bcs ext g (convert_natural g data rank) rank k = (Inr (Some bcs), h1)" and
    i: "Boundaries_init (grid_eq ext) bcs h1 = (Inr c, k')"
    using from_data_built by blast
  from i have "bcs \<noteq> []" and "pairs c = bcs"
    by (simp_all add: Boundaries_init_Inr_iff)
  with Boundaries_init_built [OF i] make_bcs_length [OF m] show ?thesis by simp
qed

lemma from_data_given:
  assumes "from_data ext g (DBoundaries x) rank k = (Inr c, k')"
  shows "c = x \<and> k' = k \<and> grid_eq ext (grid x) g \<and>
    check_value_rank (pair_check_value_rank ext) x rank = None"
  using assms by (auto simp: from_data_def split: if_splits option.splits)

text \<open>
  C1. A collection that the constructor builds has the grid of the first pair, exactly
  \<open>num_axes\<close> pairs of that grid, and the pair at index \<open>i\<close> has axis \<open>i\<close>. A
  collection that \<open>from_data\<close> builds from data that is not yet a collection has
  exactly \<open>g.num_axes\<close> pairs for the grid \<open>g\<close> it was called with, again in the order
  of the axes; an existing collection is returned as it is. A list that is empty, whose
  length differs from \<open>num_axes\<close>, or with a pair out of the order of the axes is
  refused with an error: nothing is repaired.
\<close>

theorem one_pair_per_axis_in_order:
  "(Boundaries_init geq bs h = (Inr b, h') \<longrightarrow>
      grid b = pair_grid (hd bs) \<and> pairs b = bs \<and>
      int (length (pairs b)) = num_axes (grid b) \<and>
      (\<forall>i<length (pairs b). pair_axis (pairs b ! i) = int i)) \<and>
   ((\<forall>x. data \<noteq> DBoundaries x) \<and> from_data ext g data rank k = (Inr c, k') \<longrightarrow>
      int (length (pairs c)) = num_axes g \<and>
      (\<forall>i<length (pairs c). pair_axis (pairs c ! i) = int i)) \<and>
   (from_data ext g (DBoundaries x) rank k = (Inr c, k') \<longrightarrow> c = x \<and> k' = k) \<and>
   (bs = [] \<or> int (length bs) \<noteq> num_axes (pair_grid (hd bs)) \<or>
    (\<exists>i<length bs. pair_axis (bs ! i) \<noteq> int i) \<longrightarrow>
      (\<exists>e. Boundaries_init geq bs h = (Inl e, Suc h)))"
  using Boundaries_init_built [of geq bs h b h'] from_data_made [of data ext g rank k c k']
    from_data_given [of ext g x rank k c k'] Boundaries_init_refused [of bs geq h]
  by blast

text \<open>The theorem at the grid with two axes, and at two lists that are refused.\<close>

theorem one_pair_per_axis_in_order_witness:
  "Boundaries_init (=) [pair_x, pair_y] 9 =
     (Inr \<lparr>self_id = 9, grid = grid_2d, pairs = [pair_x, pair_y]\<rparr>, 10) \<and>
   int (length [pair_x, pair_y]) = num_axes grid_2d \<and>
   pair_axis pair_x = 0 \<and> pair_axis pair_y = 1 \<and>
   (\<exists>c. from_data simple_ext grid_2d (DStr ''auto_periodic_neumann'') 0 0 = (Inr c, 5) \<and>
      int (length (pairs c)) = num_axes grid_2d \<and>
      pair_axis (pairs c ! 0) = 0 \<and> pair_axis (pairs c ! 1) = 1) \<and>
   from_data simple_ext grid_2d
     (DBoundaries \<lparr>self_id = 9, grid = grid_2d, pairs = [pair_x, pair_y]\<rparr>) 0 10 =
     (Inr \<lparr>self_id = 9, grid = grid_2d, pairs = [pair_x, pair_y]\<rparr>, 10) \<and>
   pair_axis ([pair_y, pair_x] ! 0) \<noteq> int 0 \<and>
   (\<exists>e. Boundaries_init (=) [pair_y, pair_x] 9 = (Inl e, 10)) \<and>
   int (length [pair_x]) \<noteq> num_axes (pair_grid (hd [pair_x])) \<and>
   (\<exists>e. Boundaries_init (=) [pair_x] 9 = (Inl e, 10))"
proof -
  let ?b = "\<lparr>self_id = 9, grid = grid_2d, pairs = [pair_x, pair_y]\<rparr>"
  have ok: "Boundaries_init (=) [pair_x, pair_y] 9 = (Inr ?b, 10)"
    by (simp add: Boundaries_init_def Let_def pair_x_def pair_y_def grid_2d_def)
  have fd: "\<exists>c. from_data simple_ext grid_2d (DStr ''auto_periodic_neumann'') 0 0 = (Inr c, 5)"
    by (simp add: from_data_def convert_natural_def py_eq_str_def make_bcs_def
        is_str_or_dict_def assign_bcs_def simple_ext_def grid_2d_def enumerate_eq_zip
        Boundaries_init_def Let_def upt_rec)
  then obtain c where c: "from_data simple_ext grid_2d (DStr ''auto_periodic_neumann'') 0 0 = (Inr c, 5)"
    by blast
  have fast: "from_data simple_ext grid_2d (DBoundaries ?b) 0 10 = (Inr ?b, 10)"
    by (simp add: from_data_def simple_ext_def check_value_rank_def)
  have bad1: "pair_axis ([pair_y, pair_x] ! 0) \<noteq> int 0"
    by (simp add: pair_y_def)
  have bad2: "int (length [pair_x]) \<noteq> num_axes (pair_grid (hd [pair_x]))"
    by (simp add: pair_x_def grid_2d_def)
  note t = one_pair_per_axis_in_order
  note t1 = t [THEN conjunct1, rule_format]
  note t2 = t [THEN conjunct2, THEN conjunct1, rule_format]
  note t4 = t [THEN conjunct2, THEN conjunct2, THEN conjunct2, rule_format]
  from t1 [OF ok]
  have p1: "int (length [pair_x, pair_y]) = num_axes grid_2d \<and>
      pair_axis pair_x = 0 \<and> pair_axis pair_y = 1"
    by (auto simp: All_less_Suc2 numeral_2_eq_2)
  have "\<forall>x. DStr ''auto_periodic_neumann'' \<noteq> (DBoundaries x :: (string, unit) bc_data)"
    by simp
  from t2 [OF conjI, OF this c]
  have p1': "int (length (pairs c)) = num_axes grid_2d \<and>
      pair_axis (pairs c ! 0) = 0 \<and> pair_axis (pairs c ! 1) = 1"
    by (auto simp: grid_2d_def All_less_Suc2 numeral_2_eq_2)
  have p2: "\<exists>e. Boundaries_init (=) [pair_y, pair_x] 9 = (Inl e, 10)"
    using t4 [of "[pair_y, pair_x]" "(=)" 9] bad1 by fastforce
  have p3: "\<exists>e. Boundaries_init (=) [pair_x] 9 = (Inl e, 10)"
    using t4 [of "[pair_x]" "(=)" 9] bad2 by fastforce
  from ok c fast bad1 bad2 p1 p1' p2 p3 show ?thesis by blast
qed

lemma check_consistency_first_mismatch:
  assumes "i < length bs"
    and "\<forall>j\<le>i. geq (pair_grid (bs ! j)) g \<and> pair_axis (bs ! j) = int (k + j)"
    and "k + i < length (periodic g)"
    and "pair_periodic (bs ! i) \<noteq> periodic g ! (k + i)"
  shows "\<exists>msg. check_consistency geq g k bs = Some (PeriodicityError msg)"
  using assms
proof (induction bs arbitrary: k i)
  case Nil
  then show ?case by simp
next
  case (Cons b bs)
  from Cons.prems(2) have b: "geq (pair_grid b) g" "pair_axis b = int k"
    by (auto dest: spec [of _ 0])
  from Cons.prems(3) have k: "k < length (periodic g)" by simp
  show ?case
  proof (cases "pair_periodic b = periodic g ! k")
    case False
    with b k show ?thesis by simp
  next
    case True
    with Cons.prems(4) obtain i' where i: "i = Suc i'"
      by (cases i) auto
    from Cons.prems(1) i have 1: "i' < length bs" by simp
    have 2: "\<forall>j\<le>i'. geq (pair_grid (bs ! j)) g \<and> pair_axis (bs ! j) = int (Suc k + j)"
    proof (intro allI impI)
      fix j
      assume "j \<le> i'"
      with i have "Suc j \<le> i" by simp
      with Cons.prems(2) have "geq (pair_grid ((b # bs) ! Suc j)) g \<and>
          pair_axis ((b # bs) ! Suc j) = int (k + Suc j)"
        by blast
      then show "geq (pair_grid (bs ! j)) g \<and> pair_axis (bs ! j) = int (Suc k + j)"
        by simp
    qed
    from Cons.prems(3) i have 3: "Suc k + i' < length (periodic g)" by simp
    from Cons.prems(4) i have 4: "pair_periodic (bs ! i') \<noteq> periodic g ! (Suc k + i')" by simp
    from Cons.IH [OF 1 2 3 4] True b k show ?thesis by simp
  qed
qed

text \<open>
  C2. A list with one pair for every axis of its grid in which the flag \<open>periodic\<close> of
  the pair at some index differs from \<open>grid.periodic\<close> at that index, while the pairs
  up to that index are on the grid and in the order of the axes, is refused by the
  constructor with \<open>PeriodicityError\<close>; the error is not a \<open>BCDataError\<close>. The grid
  has an entry of \<open>periodic\<close> for every axis.
\<close>

theorem periodicity_mismatch_raises_PeriodicityError:
  assumes "bs \<noteq> []" and "g = pair_grid (hd bs)"
    and "int (length bs) = num_axes g" and "int (length (periodic g)) = num_axes g"
    and "i < length bs" and "pair_periodic (bs ! i) \<noteq> periodic g ! i"
    and "\<forall>j\<le>i. geq (pair_grid (bs ! j)) g \<and> pair_axis (bs ! j) = int j"
  shows "(\<exists>msg. Boundaries_init geq bs h = (Inl (PeriodicityError msg), Suc h)) \<and>
    (\<forall>msg. fst (Boundaries_init geq bs h) \<noteq> Inl (BCDataError msg))"
proof -
  from assms(3,4,5) have "0 + i < length (periodic g)" by simp
  with assms(5,6,7) check_consistency_first_mismatch [of i bs geq g 0]
  obtain msg where "check_consistency geq g 0 bs = Some (PeriodicityError msg)"
    by auto
  with assms(1,2,3) have "Boundaries_init geq bs h = (Inl (PeriodicityError msg), Suc h)"
    by (cases bs) (auto simp: Boundaries_init_def Let_def)
  then show ?thesis by simp
qed

text \<open>The theorem at a pair for the first axis that claims to be periodic.\<close>

theorem periodicity_mismatch_raises_PeriodicityError_witness:
  "pair_periodic (pair_x\<lparr>pair_periodic := True\<rparr>) \<noteq> periodic grid_2d ! 0 \<and>
   Boundaries_init (=) [pair_x\<lparr>pair_periodic := True\<rparr>, pair_y] 9 =
     (Inl (PeriodicityError
        (''Periodicity specified in the boundaries conditions is not compatible '' @
         ''with the grid (True != False for axis 0)'')), 10)"
proof -
  let ?bs = "[pair_x\<lparr>pair_periodic := True\<rparr>, pair_y]"
  have 1: "?bs \<noteq> []" by simp
  have 2: "grid_2d = pair_grid (hd ?bs)" by (simp add: pair_x_def)
  have 3: "int (length ?bs) = num_axes grid_2d" by (simp add: grid_2d_def)
  have 4: "int (length (periodic grid_2d)) = num_axes grid_2d" by (simp add: grid_2d_def)
  have 5: "0 < length ?bs" by simp
  have 6: "pair_periodic (?bs ! 0) \<noteq> periodic grid_2d ! 0"
    by (simp add: grid_2d_def)
  have 7: "\<forall>j\<le>0. pair_grid (?bs ! j) = grid_2d \<and> pair_axis (?bs ! j) = int j"
    by (simp add: pair_x_def)
  have run: "Boundaries_init (=) ?bs 9 =
     (Inl (PeriodicityError
        (''Periodicity specified in the boundaries conditions is not compatible '' @
         ''with the grid (True != False for axis 0)'')), 10)"
    by (simp add: Boundaries_init_def Let_def pair_x_def pair_y_def grid_2d_def str_bool_def
        str_nat.simps [of 0])
  from periodicity_mismatch_raises_PeriodicityError [of ?bs grid_2d 0 "(=)" 9, OF 1 2 3 4 5 6 7]
    6 run
  show ?thesis by simp
qed

lemma str_nat_2: "str_nat 2 = ''2''"
  by (subst str_nat.simps) simp

lemma str_int_2: "str_int 2 = ''2''"
  by (simp add: str_int_def str_nat_2)

text \<open>
  C10, as stated, fails: a list with the single pair of axis 0 of a grid with two axes is
  not empty, is in the order of the axes, has one grid and the periodicity of that grid,
  and the constructor refuses it, because it has not one pair for every axis.
\<close>

theorem first_pair_grid_counterexample:
  "[pair_x] \<noteq> [] \<and> pair_axis ([pair_x] ! 0) = 0 \<and> pair_grid ([pair_x] ! 0) = grid_2d \<and>
   pair_periodic ([pair_x] ! 0) = periodic grid_2d ! 0 \<and>
   Boundaries_init (=) [pair_x] 9 =
     (Inl (BCDataError ''Need boundary conditions for 2 axes''), 10)"
  by (simp add: Boundaries_init_def Let_def pair_x_def grid_2d_def str_int_2)

lemma Boundaries_init_checked:
  assumes "Boundaries_init geq bs h = (Inr b, h')"
  shows "grid b = pair_grid (hd bs) \<and>
      (\<forall>i<length bs. geq (pair_grid (bs ! i)) (pair_grid (hd bs)) \<and>
         pair_periodic (bs ! i) = periodic (pair_grid (hd bs)) ! i)"
proof -
  from assms have "check_consistency geq (pair_grid (hd bs)) 0 bs = None"
    and "grid b = pair_grid (hd bs)"
    by (simp_all add: Boundaries_init_Inr_iff)
  then show ?thesis
    by (simp add: check_consistency_None_iff)
qed

lemma Boundaries_init_accepted:
  assumes "bs \<noteq> []" and len: "int (length bs) = num_axes g"
    and per: "int (length (periodic g)) = num_axes g" and "geq g g"
    and all: "\<forall>i<length bs. pair_grid (bs ! i) = g \<and> pair_axis (bs ! i) = int i \<and>
      pair_periodic (bs ! i) = periodic g ! i"
  shows "Boundaries_init geq bs h = (Inr \<lparr>self_id = h, grid = g, pairs = bs\<rparr>, Suc h)"
proof -
  from \<open>bs \<noteq> []\<close> all have g: "pair_grid (hd bs) = g"
    by (cases bs) auto
  from len per have "length (periodic g) = length bs" by simp
  with all \<open>geq g g\<close> have "check_consistency geq g 0 bs = None"
    by (simp add: check_consistency_None_iff)
  with \<open>bs \<noteq> []\<close> len g show ?thesis
    by (simp add: Boundaries_init_Inr_iff)
qed

text \<open>
  C10, amended. The constructor has no grid argument: the grid of a collection it builds
  is the grid of the first pair, and every pair was compared with that grid, for the
  grid and for the periodicity. Any list that is not empty, has one pair for every axis
  of a grid \<open>g\<close> (its length is \<open>g.num_axes\<close>), in the order of the axes, all on \<open>g\<close>
  and with the periodicity of \<open>g\<close>, is accepted, whichever grid \<open>g\<close> is; \<open>g\<close> is
  taken to be equal to itself and to have an entry of \<open>periodic\<close> for every axis.
\<close>

theorem first_pair_grid:
  "(Boundaries_init geq bs h = (Inr b, h') \<longrightarrow>
      grid b = pair_grid (hd bs) \<and>
      (\<forall>i<length bs. geq (pair_grid (bs ! i)) (pair_grid (hd bs)) \<and>
         pair_periodic (bs ! i) = periodic (pair_grid (hd bs)) ! i)) \<and>
   (bs \<noteq> [] \<and> int (length bs) = num_axes g \<and> int (length (periodic g)) = num_axes g \<and>
    geq g g \<and>
    (\<forall>i<length bs. pair_grid (bs ! i) = g \<and> pair_axis (bs ! i) = int i \<and>
       pair_periodic (bs ! i) = periodic g ! i) \<longrightarrow>
      Boundaries_init geq bs h = (Inr \<lparr>self_id = h, grid = g, pairs = bs\<rparr>, Suc h))"
  using Boundaries_init_checked [of geq bs h b h'] Boundaries_init_accepted [of bs g geq h]
  by blast

text \<open>The theorem at the two pairs of the grid with two axes.\<close>

theorem first_pair_grid_witness:
  "Boundaries_init (=) [pair_x, pair_y] 9 =
     (Inr \<lparr>self_id = 9, grid = grid_2d, pairs = [pair_x, pair_y]\<rparr>, 10) \<and>
   grid_2d = pair_grid (hd [pair_x, pair_y]) \<and>
   pair_periodic pair_x = periodic grid_2d ! 0 \<and> pair_periodic pair_y = periodic grid_2d ! 1"
proof -
  let ?bs = "[pair_x, pair_y]"
  have hyp: "?bs \<noteq> [] \<and> int (length ?bs) = num_axes grid_2d \<and>
      int (length (periodic grid_2d)) = num_axes grid_2d \<and> grid_2d = grid_2d \<and>
      (\<forall>i<length ?bs. pair_grid (?bs ! i) = grid_2d \<and> pair_axis (?bs ! i) = int i \<and>
         pair_periodic (?bs ! i) = periodic grid_2d ! i)"
    by (simp add: All_less_Suc2 numeral_2_eq_2 pair_x_def pair_y_def grid_2d_def)
  note t = first_pair_grid [of "(=)" ?bs 9 _ _ grid_2d]
  from t [THEN conjunct2, rule_format, OF hyp]
  have ok: "Boundaries_init (=) ?bs 9 =
      (Inr \<lparr>self_id = 9, grid = grid_2d, pairs = ?bs\<rparr>, 10)"
    by simp
  from t [THEN conjunct1, rule_format, OF ok]
  have "grid_2d = pair_grid (hd ?bs) \<and>
      pair_periodic pair_x = periodic grid_2d ! 0 \<and> pair_periodic pair_y = periodic grid_2d ! 1"
    by (auto simp: All_less_Suc2 numeral_2_eq_2)
  with ok show ?thesis by simp
qed

text \<open>
  C7, as stated, fails: the constructor compares grids with \<open>!=\<close> and \<open>from_data\<close>
  with \<open>==\<close>, which are the equality of the grid class and not \<open>is\<close>. With an
  equality that compares the data of the grids, two pairs on two different grid objects
  with the same data are accepted, and the collection is accepted for a grid object that
  is not its own.
\<close>

theorem grid_check_counterexample:
  "grid_id grid_2d_twin \<noteq> grid_id grid_2d \<and>
   Boundaries_init grid_eq_by_value [pair_x, pair_y\<lparr>pair_grid := grid_2d_twin\<rparr>] 9 =
     (Inr \<lparr>self_id = 9, grid = grid_2d,
        pairs = [pair_x, pair_y\<lparr>pair_grid := grid_2d_twin\<rparr>]\<rparr>, 10) \<and>
   from_data (simple_ext\<lparr>grid_eq := grid_eq_by_value\<rparr>) grid_2d_twin
     (DBoundaries \<lparr>self_id = 9, grid = grid_2d, pairs = [pair_x, pair_y]\<rparr>) 0 10 =
     (Inr \<lparr>self_id = 9, grid = grid_2d, pairs = [pair_x, pair_y]\<rparr>, 10)"
  by (simp add: Boundaries_init_def Let_def pair_x_def pair_y_def grid_2d_def grid_2d_twin_def
      grid_eq_by_value_def from_data_def simple_ext_def check_value_rank_def)

lemma Boundaries_init_grids_equal:
  assumes "Boundaries_init geq bs h = (Inr b, h')"
  shows "\<forall>p\<in>set bs. geq (pair_grid p) (grid b)"
proof -
  from assms have "\<forall>i<length bs. geq (pair_grid (bs ! i)) (grid b)"
    by (simp add: Boundaries_init_Inr_iff check_consistency_None_iff)
  then show ?thesis
    by (auto simp: in_set_conv_nth)
qed

lemma check_consistency_grid_unequal:
  assumes "p \<in> set bs" and "\<not> geq (pair_grid p) g"
  shows "check_consistency geq g k bs \<noteq> None"
  using assms by (auto simp: check_consistency_None_iff in_set_conv_nth)

lemma Boundaries_init_grid_unequal:
  assumes "p \<in> set bs" and "\<not> geq (pair_grid p) (pair_grid (hd bs))"
  shows "\<exists>e. Boundaries_init geq bs h = (Inl e, Suc h)"
proof -
  obtain r where r: "Boundaries_init geq bs h = (r, Suc h)"
    using Boundaries_init_raises by blast
  show ?thesis
  proof (cases r)
    case (Inl e)
    with r show ?thesis by simp
  next
    case (Inr b)
    with r Boundaries_init_grids_equal [of geq bs h b "Suc h"] Boundaries_init_built [of geq bs h b "Suc h"]
      assms show ?thesis by auto
  qed
qed

lemma from_data_asserts_grid:
  "\<not> grid_eq ext (grid x) g \<Longrightarrow> from_data ext g (DBoundaries x) rank k = (Inl AssertionError, k)"
  by (simp add: from_data_def)

text \<open>
  C7, amended. The grid consistency check is a check of equality, by the \<open>__eq__\<close> of
  the grid class: the constructor accepts a list of pairs only if the grid of every pair
  is equal to the grid of the first pair, which becomes the grid of the collection, and
  refuses a list with a pair whose grid is not; the fast path of \<open>from_data\<close> for an
  existing collection raises \<open>AssertionError\<close> unless the grid of the collection is
  equal to the target grid. When the equality of grids is identity, every pair of an
  accepted list has the very grid of the collection.
\<close>

theorem grid_check_is_equality:
  "(Boundaries_init geq bs h = (Inr b, h') \<longrightarrow> (\<forall>p\<in>set bs. geq (pair_grid p) (grid b))) \<and>
   ((\<exists>p\<in>set bs. \<not> geq (pair_grid p) (pair_grid (hd bs))) \<longrightarrow>
      (\<exists>e. Boundaries_init geq bs h = (Inl e, Suc h))) \<and>
   (\<not> grid_eq ext (grid x) g \<longrightarrow>
      from_data ext g (DBoundaries x) rank k = (Inl AssertionError, k)) \<and>
   (from_data ext g (DBoundaries x) rank k = (Inr c, k') \<longrightarrow> grid_eq ext (grid x) g) \<and>
   (Boundaries_init (=) bs h = (Inr b, h') \<longrightarrow> (\<forall>p\<in>set bs. pair_grid p = grid b))"
  using Boundaries_init_grids_equal [of geq bs h b h']
    Boundaries_init_grids_equal [of "(=)" bs h b h']
    Boundaries_init_grid_unequal [of _ bs geq h]
    from_data_asserts_grid [of ext x g rank k]
    from_data_given [of ext g x rank k c k']
  by blast

text \<open>
  The theorem at the two pairs of the grid with two axes, with identity as the equality
  of grids: the pair on the second grid object is refused, and so is the collection for
  the second grid object.
\<close>

theorem grid_check_is_equality_witness:
  "Boundaries_init (=) [pair_x, pair_y] 9 =
     (Inr \<lparr>self_id = 9, grid = grid_2d, pairs = [pair_x, pair_y]\<rparr>, 10) \<and>
   pair_grid pair_x = grid_2d \<and> pair_grid pair_y = grid_2d \<and>
   pair_grid (pair_y\<lparr>pair_grid := grid_2d_twin\<rparr>) \<noteq> pair_grid pair_x \<and>
   (\<exists>e. Boundaries_init (=) [pair_x, pair_y\<lparr>pair_grid := grid_2d_twin\<rparr>] 9 = (Inl e, 10)) \<and>
   grid_2d \<noteq> grid_2d_twin \<and>
   from_data simple_ext grid_2d_twin
     (DBoundaries \<lparr>self_id = 9, grid = grid_2d, pairs = [pair_x, pair_y]\<rparr>) 0 10 =
     (Inl AssertionError, 10) \<and>
   from_data simple_ext grid_2d
     (DBoundaries \<lparr>self_id = 9, grid = grid_2d, pairs = [pair_x, pair_y]\<rparr>) 0 10 =
     (Inr \<lparr>self_id = 9, grid = grid_2d, pairs = [pair_x, pair_y]\<rparr>, 10)"
proof -
  let ?b = "\<lparr>self_id = 9, grid = grid_2d, pairs = [pair_x, pair_y]\<rparr>"
  let ?bad = "[pair_x, pair_y\<lparr>pair_grid := grid_2d_twin\<rparr>]"
  note t = grid_check_is_equality
  have ok: "Boundaries_init (=) [pair_x, pair_y] 9 = (Inr ?b, 10)"
    by (simp add: Boundaries_init_def Let_def pair_x_def pair_y_def grid_2d_def)
  from t [of "(=)" "[pair_x, pair_y]" 9 ?b 10, THEN conjunct1, rule_format, OF ok]
  have same: "pair_grid pair_x = grid_2d \<and> pair_grid pair_y = grid_2d"
    by simp
  have other: "pair_grid (pair_y\<lparr>pair_grid := grid_2d_twin\<rparr>) \<noteq> pair_grid pair_x"
    by (simp add: pair_x_def grid_2d_def grid_2d_twin_def)
  then have "\<exists>p\<in>set ?bad. \<not> pair_grid p = pair_grid (hd ?bad)"
    by simp
  from t [of "(=)" ?bad 9, THEN conjunct2, THEN conjunct1, rule_format, OF this]
  have refused: "\<exists>e. Boundaries_init (=) ?bad 9 = (Inl e, 10)"
    by simp
  have ne: "grid_2d \<noteq> grid_2d_twin"
    by (simp add: grid_2d_def grid_2d_twin_def)
  then have "\<not> grid_eq simple_ext (grid ?b) grid_2d_twin"
    by (simp add: simple_ext_def)
  from t [of _ _ _ _ _ simple_ext ?b grid_2d_twin 0 10, THEN conjunct2, THEN conjunct2,
      THEN conjunct1, rule_format, OF this]
  have asserted: "from_data simple_ext grid_2d_twin (DBoundaries ?b) 0 10 = (Inl AssertionError, 10)"
    by simp
  have fast: "from_data simple_ext grid_2d (DBoundaries ?b) 0 10 = (Inr ?b, 10)"
    by (simp add: from_data_def simple_ext_def check_value_rank_def)
  from ok same other refused ne asserted fast show ?thesis by blast
qed

subsection \<open>\<open>from_data\<close>\<close>

lemma check_value_rank_loop_None_iff:
  "check_value_rank_loop chk bs rank = None \<longleftrightarrow> (\<forall>p\<in>set bs. chk p rank = None)"
  by (induction bs) (auto split: option.splits)

text \<open>
  C6. For a collection \<open>b\<close> whose grid is equal to the grid \<open>g\<close> and whose pairs all
  pass the check of the rank, \<open>from_data(g, b, rank)\<close> returns \<open>b\<close> itself, the object
  with the address and the pairs of \<open>b\<close>: no object is created, and neither
  \<open>get_boundary_axis\<close> nor the constructor takes part in the result.
\<close>

theorem from_data_returns_same_object:
  assumes "grid_eq ext (grid b) g"
    and "\<forall>p\<in>set (pairs b). pair_check_value_rank ext p rank = None"
  shows "from_data ext g (DBoundaries b) rank h = (Inr b, h) \<and>
    from_data (ext\<lparr>get_boundary_axis := other\<rparr>) g (DBoundaries b) rank h = (Inr b, h)"
proof -
  from assms(2) have "check_value_rank_loop (pair_check_value_rank ext) (pairs b) rank = None"
    by (simp add: check_value_rank_loop_None_iff)
  with assms(1) show ?thesis
    by (simp add: from_data_def check_value_rank_def)
qed

text \<open>The theorem at the collection of the grid with two axes.\<close>

theorem from_data_returns_same_object_witness:
  "from_data simple_ext grid_2d
     (DBoundaries \<lparr>self_id = 9, grid = grid_2d, pairs = [pair_x, pair_y]\<rparr>) 0 10 =
     (Inr \<lparr>self_id = 9, grid = grid_2d, pairs = [pair_x, pair_y]\<rparr>, 10)"
proof -
  let ?b = "\<lparr>self_id = 9, grid = grid_2d, pairs = [pair_x, pair_y]\<rparr>"
  have 1: "grid_eq simple_ext (grid ?b) grid_2d"
    by (simp add: simple_ext_def)
  have 2: "\<forall>p\<in>set (pairs ?b). pair_check_value_rank simple_ext p 0 = None"
    by (simp add: simple_ext_def)
  from from_data_returns_same_object [OF 1 2] show ?thesis by simp
qed

lemma comprehension_map:
  "comprehension f (map k xs) h = comprehension (\<lambda>x. f (k x)) xs h"
  by (induction xs arbitrary: h) (auto split: prod.splits sum.splits)

lemma enumerate_as_map:
  "enumerate 0 xs = map (\<lambda>i. (i, xs ! i)) [0 ..< length xs]"
  by (rule nth_equalityI) (simp_all add: nth_enumerate_eq)

lemma comprehension_enumerate:
  "comprehension (\<lambda>(i, x). f i x) (enumerate 0 xs) h =
   comprehension (\<lambda>i. f i (xs ! i)) [0 ..< length xs] h"
  by (simp add: enumerate_as_map comprehension_map)

lemma convert_natural_DSeq: "convert_natural g (DSeq xs) rank = DSeq xs"
  by (simp add: convert_natural_def py_eq_str_def)

lemma from_data_DSeq:
  "from_data ext g (DSeq xs) rank h =
     (if int (length xs) = num_axes g then axis_wise ext g xs rank h
      else if num_axes g = 1 \<and> length xs = 2 then low_high ext g xs rank h
      else (Inl (BCDataError
                  (''Unsupported boundary format: `'' @ data_str ext (DSeq xs) @ ''`. '' @
                   get_help (pair_get_help ext))), h))"
  by (auto simp: from_data_def convert_natural_DSeq make_bcs_def is_str_or_dict_def
      assign_bcs_def comprehension_enumerate axis_wise_def low_high_def construct_def Let_def
      split: prod.splits sum.splits)


text \<open>
  C4. For a sequence, \<open>from_data\<close> reads the elements axis by axis whenever the length
  of the sequence is \<open>grid.num_axes\<close>; it reads the sequence as the low and the high
  side of the single axis only when \<open>grid.num_axes\<close> is 1 and the length is 2. For a
  grid that has not exactly one axis, a sequence of another length than \<open>num_axes\<close> is
  refused with \<open>BCDataError\<close>, so that the second reading is never used; for a grid
  with two axes a sequence of two elements is read axis by axis.
\<close>

theorem sequence_read_by_axis_first:
  "(int (length xs) = num_axes g \<longrightarrow>
      from_data ext g (DSeq xs) rank h = axis_wise ext g xs rank h) \<and>
   (num_axes g = 1 \<and> length xs = 2 \<longrightarrow>
      from_data ext g (DSeq xs) rank h = low_high ext g xs rank h) \<and>
   (int (length xs) \<noteq> num_axes g \<and> \<not> (num_axes g = 1 \<and> length xs = 2) \<longrightarrow>
      (\<exists>msg. from_data ext g (DSeq xs) rank h = (Inl (BCDataError msg), h))) \<and>
   (num_axes g \<noteq> 1 \<longrightarrow>
      from_data ext g (DSeq xs) rank h = axis_wise ext g xs rank h \<or>
      (\<exists>msg. from_data ext g (DSeq xs) rank h = (Inl (BCDataError msg), h))) \<and>
   (num_axes g = 2 \<and> length xs = 2 \<longrightarrow>
      from_data ext g (DSeq xs) rank h = axis_wise ext g xs rank h)"
  by (simp add: from_data_DSeq)

text \<open>
  The theorem at the grid with one axis and the pair of a low and a high condition, at
  the grid with two axes and two conditions, and at the grid with two axes and three.
\<close>

theorem sequence_read_by_axis_first_witness:
  "from_data simple_ext grid_1d (DSeq [DStr ''dirichlet'', DStr ''neumann'']) 0 0 =
     (Inr \<lparr>self_id = 3, grid = grid_1d,
        pairs = [\<lparr>pair_id = 0, pair_grid = grid_1d, pair_axis = 0, pair_periodic = False,
                  pair_values = [(1, ''dirichlet''), (2, ''neumann'')]\<rparr>]\<rparr>, 4) \<and>
   from_data simple_ext grid_2d (DSeq [DStr ''dirichlet'', DStr ''periodic'']) 0 0 =
     (Inr \<lparr>self_id = 4, grid = grid_2d,
        pairs = [\<lparr>pair_id = 0, pair_grid = grid_2d, pair_axis = 0, pair_periodic = False,
                  pair_values = [(1, ''dirichlet'')]\<rparr>,
                 \<lparr>pair_id = 2, pair_grid = grid_2d, pair_axis = 1, pair_periodic = True,
                  pair_values = [(3, ''periodic'')]\<rparr>]\<rparr>, 5) \<and>
   (\<exists>msg. from_data simple_ext grid_2d
      (DSeq [DStr ''dirichlet'', DStr ''periodic'', DStr ''neumann'']) 0 0 =
      (Inl (BCDataError msg), 0))"
proof -
  note t = sequence_read_by_axis_first
  have "num_axes grid_1d = 1 \<and> length [DStr ''dirichlet'', DStr ''neumann''] = 2"
    by (simp add: grid_1d_def)
  from t [THEN conjunct2, THEN conjunct1, rule_format, OF this]
  have 1: "from_data simple_ext grid_1d (DSeq [DStr ''dirichlet'', DStr ''neumann'']) 0 0 =
      low_high simple_ext grid_1d [DStr ''dirichlet'', DStr ''neumann''] 0 0" .
  have "int (length [DStr ''dirichlet'', DStr ''periodic'']) = num_axes grid_2d"
    by (simp add: grid_2d_def)
  from t [THEN conjunct1, rule_format, OF this]
  have 2: "from_data simple_ext grid_2d (DSeq [DStr ''dirichlet'', DStr ''periodic'']) 0 0 =
      axis_wise simple_ext grid_2d [DStr ''dirichlet'', DStr ''periodic''] 0 0" .
  have "int (length [DStr ''dirichlet'', DStr ''periodic'', DStr ''neumann'']) \<noteq> num_axes grid_2d \<and>
      \<not> (num_axes grid_2d = 1 \<and> length [DStr ''dirichlet'', DStr ''periodic'', DStr ''neumann''] = 2)"
    by (simp add: grid_2d_def)
  from t [THEN conjunct2, THEN conjunct2, THEN conjunct1, rule_format, OF this]
  have 3: "\<exists>msg. from_data simple_ext grid_2d
      (DSeq [DStr ''dirichlet'', DStr ''periodic'', DStr ''neumann'']) 0 0 =
      (Inl (BCDataError msg), 0)" .
  have 4: "low_high simple_ext grid_1d [DStr ''dirichlet'', DStr ''neumann''] 0 0 =
     (Inr \<lparr>self_id = 3, grid = grid_1d,
        pairs = [\<lparr>pair_id = 0, pair_grid = grid_1d, pair_axis = 0, pair_periodic = False,
                  pair_values = [(1, ''dirichlet''), (2, ''neumann'')]\<rparr>]\<rparr>, 4)"
    by (simp add: low_high_def construct_def simple_ext_def Boundaries_init_def Let_def
        grid_1d_def)
  have 5: "axis_wise simple_ext grid_2d [DStr ''dirichlet'', DStr ''periodic''] 0 0 =
     (Inr \<lparr>self_id = 4, grid = grid_2d,
        pairs = [\<lparr>pair_id = 0, pair_grid = grid_2d, pair_axis = 0, pair_periodic = False,
                  pair_values = [(1, ''dirichlet'')]\<rparr>,
                 \<lparr>pair_id = 2, pair_grid = grid_2d, pair_axis = 1, pair_periodic = True,
                  pair_values = [(3, ''periodic'')]\<rparr>]\<rparr>, 5)"
    by (simp add: axis_wise_def construct_def simple_ext_def Boundaries_init_def Let_def
        grid_2d_def upt_rec)
  from 1 2 3 4 5 show ?thesis by simp
qed

lemma convert_natural_keyword:
  assumes "(keyword, kind) \<in> {(''natural'', ''neumann''), (''auto_periodic_neumann'', ''neumann''),
      (''auto_periodic_dirichlet'', ''dirichlet''), (''auto_periodic_curvature'', ''curvature'')}"
  shows "convert_natural g (DStr keyword) rank = keyword_per_axis kind g"
  using assms by (auto simp: convert_natural_def py_eq_str_def keyword_per_axis_def)

lemma from_data_converted:
  assumes "convert_natural g (DStr keyword) rank = DSeq xs"
  shows "from_data ext g (DStr keyword) rank h = from_data ext g (DSeq xs) rank h"
  using assms by (simp add: from_data_def convert_natural_DSeq)

text \<open>
  C5. For every grid and every rank, \<open>from_data\<close> expands \<open>"natural"\<close> and
  \<open>"auto_periodic_neumann"\<close>, \<open>"auto_periodic_dirichlet"\<close> and
  \<open>"auto_periodic_curvature"\<close> into one keyword for every entry of \<open>grid.periodic\<close>,
  \<open>"periodic"\<close> where the entry is true and \<open>"neumann"\<close>, \<open>"dirichlet"\<close> or
  \<open>"curvature"\<close> where it is false, and goes on with that list; the expansion is the
  same for every rank. With one entry of \<open>grid.periodic\<close> for every axis, that is one
  keyword for every axis.
\<close>

theorem natural_keywords_expanded:
  fixes ext :: "('v, 'd) externals"
  assumes "(keyword, kind) \<in> {(''natural'', ''neumann''), (''auto_periodic_neumann'', ''neumann''),
      (''auto_periodic_dirichlet'', ''dirichlet''), (''auto_periodic_curvature'', ''curvature'')}"
  shows "convert_natural g (DStr keyword) rank = (keyword_per_axis kind g :: ('v, 'd) bc_data) \<and>
    convert_natural g (DStr keyword :: ('v, 'd) bc_data) rank =
      convert_natural g (DStr keyword) rank' \<and>
    from_data ext g (DStr keyword) rank h = from_data ext g (keyword_per_axis kind g) rank h \<and>
    (\<exists>xs. keyword_per_axis kind g = (DSeq xs :: ('v, 'd) bc_data) \<and>
       length xs = length (periodic g) \<and>
       (\<forall>i<length xs. xs ! i = DStr (if periodic g ! i then ''periodic'' else kind)) \<and>
       (int (length (periodic g)) = num_axes g \<longrightarrow> int (length xs) = num_axes g))"
proof -
  have c: "convert_natural g (DStr keyword) r = (keyword_per_axis kind g :: ('v, 'd) bc_data)" for r
    using assms by (rule convert_natural_keyword)
  have "from_data ext g (DStr keyword) rank h = from_data ext g (keyword_per_axis kind g) rank h"
    using from_data_converted [of g keyword rank _ ext h] c [of rank]
    by (simp add: keyword_per_axis_def)
  moreover have "\<exists>xs. keyword_per_axis kind g = (DSeq xs :: ('v, 'd) bc_data) \<and>
       length xs = length (periodic g) \<and>
       (\<forall>i<length xs. xs ! i = DStr (if periodic g ! i then ''periodic'' else kind)) \<and>
       (int (length (periodic g)) = num_axes g \<longrightarrow> int (length xs) = num_axes g)"
    by (simp add: keyword_per_axis_def)
  ultimately show ?thesis using c [of rank] c [of rank'] by simp
qed

text \<open>
  The theorem at the grid with two axes, the second one periodic, and the keyword
  \<open>"auto_periodic_neumann"\<close>: the first axis gets Neumann conditions, the second one
  the periodic condition, for rank 0 and for rank 1.
\<close>

theorem natural_keywords_expanded_witness:
  "convert_natural grid_2d (DStr ''auto_periodic_neumann'' :: (string, unit) bc_data) 0 =
     DSeq [DStr ''neumann'', DStr ''periodic''] \<and>
   convert_natural grid_2d (DStr ''auto_periodic_neumann'' :: (string, unit) bc_data) 1 =
     DSeq [DStr ''neumann'', DStr ''periodic''] \<and>
   from_data simple_ext grid_2d (DStr ''auto_periodic_neumann'') 0 0 =
     from_data simple_ext grid_2d (DSeq [DStr ''neumann'', DStr ''periodic'']) 0 0 \<and>
   from_data simple_ext grid_2d (DSeq [DStr ''neumann'', DStr ''periodic'']) 0 0 =
     (Inr \<lparr>self_id = 4, grid = grid_2d,
        pairs = [\<lparr>pair_id = 0, pair_grid = grid_2d, pair_axis = 0, pair_periodic = False,
                  pair_values = [(1, ''neumann'')]\<rparr>,
                 \<lparr>pair_id = 2, pair_grid = grid_2d, pair_axis = 1, pair_periodic = True,
                  pair_values = [(3, ''periodic'')]\<rparr>]\<rparr>, 5)"
proof -
  have m: "(''auto_periodic_neumann'', ''neumann'') \<in>
      {(''natural'', ''neumann''), (''auto_periodic_neumann'', ''neumann''),
       (''auto_periodic_dirichlet'', ''dirichlet''), (''auto_periodic_curvature'', ''curvature'')}"
    by simp
  have k: "keyword_per_axis ''neumann'' grid_2d =
      (DSeq [DStr ''neumann'', DStr ''periodic''] :: (string, unit) bc_data)"
    by (simp add: keyword_per_axis_def grid_2d_def)
  note t = natural_keywords_expanded [OF m, of grid_2d _ _ simple_ext 0]
  have e: "from_data simple_ext grid_2d (DSeq [DStr ''neumann'', DStr ''periodic'']) 0 0 =
     (Inr \<lparr>self_id = 4, grid = grid_2d,
        pairs = [\<lparr>pair_id = 0, pair_grid = grid_2d, pair_axis = 0, pair_periodic = False,
                  pair_values = [(1, ''neumann'')]\<rparr>,
                 \<lparr>pair_id = 2, pair_grid = grid_2d, pair_axis = 1, pair_periodic = True,
                  pair_values = [(3, ''periodic'')]\<rparr>]\<rparr>, 5)"
    by (simp add: from_data_def convert_natural_DSeq make_bcs_def is_str_or_dict_def
        assign_bcs_def simple_ext_def Boundaries_init_def Let_def grid_2d_def enumerate_eq_zip
        upt_rec)
  from t [of 0 1] have 1: "convert_natural grid_2d
        (DStr ''auto_periodic_neumann'' :: (string, unit) bc_data) 0 =
      DSeq [DStr ''neumann'', DStr ''periodic''] \<and>
    from_data simple_ext grid_2d (DStr ''auto_periodic_neumann'') 0 0 =
      from_data simple_ext grid_2d (DSeq [DStr ''neumann'', DStr ''periodic'']) 0 0"
    by (simp add: k)
  from t [of 1 0] have 2: "convert_natural grid_2d
        (DStr ''auto_periodic_neumann'' :: (string, unit) bc_data) 1 =
      DSeq [DStr ''neumann'', DStr ''periodic'']"
    by (simp add: k)
  from 1 2 e show ?thesis by simp
qed

subsection \<open>Ghost cells\<close>

lemma set_ghost_cells_loop_foldl:
  "set_ghost_cells_loop pset bs d a = foldl (\<lambda>d b. pset b d a) d bs"
  by (induction bs arbitrary: d) simp_all

lemma chain_Some:
  "fs \<noteq> [] \<Longrightarrow>
   chain fs (Some inner) = Inr (\<lambda>d a. foldl (\<lambda>d f. f d a) (inner d a) fs)"
proof (induction fs arbitrary: inner)
  case Nil
  then show ?case by simp
next
  case (Cons f fs)
  show ?case
  proof (cases "fs = []")
    case True
    then show ?thesis by simp
  next
    case False
    with Cons.IH [OF False] show ?thesis by simp
  qed
qed

lemma chain_None:
  "fs \<noteq> [] \<Longrightarrow> chain fs None = Inr (\<lambda>d a. foldl (\<lambda>d f. f d a) d fs)"
proof (cases fs)
  case Nil
  assume "fs \<noteq> []"
  with Nil show ?thesis by simp
next
  case (Cons f rest)
  show ?thesis
  proof (cases "rest = []")
    case True
    with Cons show ?thesis by simp
  next
    case False
    with Cons chain_Some [OF False, of "\<lambda>d a. f d a"] show ?thesis by simp
  qed
qed

lemma make_ghost_cell_setter_foldl:
  assumes "pairs b \<noteq> []"
  shows "make_ghost_cell_setter pmake b = Inr (\<lambda>d a. foldl (\<lambda>d p. pmake p d a) d (pairs b))"
  using assms by (simp add: make_ghost_cell_setter_def chain_None foldl_map)


lemma foldl_log_axis:
  "foldl (\<lambda>d p. log_axis p d a) calls ps = calls @ map pair_axis ps"
  by (induction ps arbitrary: calls) (simp_all add: log_axis_def)

lemma axes_in_order:
  assumes "\<forall>i<length ps. pair_axis (ps ! i) = int i"
  shows "map pair_axis ps = map int [0 ..< length ps]"
  using assms by (intro nth_equalityI) simp_all

text \<open>
  C3. For a collection \<open>b\<close> that the constructor has built, \<open>make_ghost_cell_setter\<close>
  returns one routine, and a call of the routine is the call of the setter of every
  pair, one after the other in the order of the list, which is the order of the axes
  \<open>0, 1, ..., num_axes - 1\<close>. When the setter that a pair makes does what its
  \<open>set_ghost_cells\<close> does, the routine does what \<open>set_ghost_cells\<close> of the collection
  does. With setters that record their axis, the routine and \<open>set_ghost_cells\<close> both
  record each axis once, in increasing order.
\<close>

theorem composed_setter_runs_axes_in_order:
  fixes pmake :: "'v BoundaryPair \<Rightarrow> 'arr \<Rightarrow> 'args \<Rightarrow> 'arr"
  assumes "Boundaries_init geq bs h = (Inr b, h')"
  shows "(\<exists>f. make_ghost_cell_setter pmake b = Inr f \<and>
       (\<forall>d a. f d a = foldl (\<lambda>d p. pmake p d a) d (pairs b)) \<and>
       ((\<forall>p\<in>set (pairs b). pmake p = pset p) \<longrightarrow>
          (\<forall>d a. f d a = set_ghost_cells pset b d a))) \<and>
    (\<exists>f. make_ghost_cell_setter log_axis b = Inr f \<and>
       (\<forall>calls (a::'args). f calls a = calls @ map int [0 ..< nat (num_axes (grid b))] \<and>
          set_ghost_cells log_axis b calls a = calls @ map int [0 ..< nat (num_axes (grid b))]))"
proof -
  from assms have ne: "pairs b \<noteq> []"
    and ord: "\<forall>i<length (pairs b). pair_axis (pairs b ! i) = int i"
    and len: "length (pairs b) = nat (num_axes (grid b))"
    using Boundaries_init_built [OF assms] by (auto simp: Boundaries_init_Inr_iff)
  define f where "f = (\<lambda>d a. foldl (\<lambda>d p. pmake p d a) d (pairs b))"
  have made: "make_ghost_cell_setter pmake b = Inr f"
    unfolding f_def by (rule make_ghost_cell_setter_foldl [OF ne])
  have steps: "\<forall>d a. f d a = foldl (\<lambda>d p. pmake p d a) d (pairs b)"
    by (simp add: f_def)
  have loop: "(\<forall>p\<in>set (pairs b). pmake p = pset p) \<longrightarrow>
      (\<forall>d a. f d a = set_ghost_cells pset b d a)"
  proof (intro impI allI)
    fix d a
    assume eq: "\<forall>p\<in>set (pairs b). pmake p = pset p"
    have "foldl (\<lambda>d p. pmake p d a) d (pairs b) = foldl (\<lambda>d p. pset p d a) d (pairs b)"
      by (rule foldl_cong) (simp_all add: eq)
    then show "f d a = set_ghost_cells pset b d a"
      by (simp add: f_def set_ghost_cells_def set_ghost_cells_loop_foldl)
  qed
  define t where "t = (\<lambda>calls (a::'args). foldl (\<lambda>d p. log_axis p d a) calls (pairs b))"
  have logged: "make_ghost_cell_setter log_axis b = Inr t"
    unfolding t_def by (rule make_ghost_cell_setter_foldl [OF ne])
  have order: "map pair_axis (pairs b) = map int [0 ..< nat (num_axes (grid b))]"
    using axes_in_order [OF ord] len by simp
  have trace: "\<forall>calls (a::'args). t calls a = calls @ map int [0 ..< nat (num_axes (grid b))] \<and>
      set_ghost_cells log_axis b calls a = calls @ map int [0 ..< nat (num_axes (grid b))]"
    by (simp add: t_def set_ghost_cells_def set_ghost_cells_loop_foldl foldl_log_axis order)
  from made steps loop have "\<exists>f. make_ghost_cell_setter pmake b = Inr f \<and>
       (\<forall>d a. f d a = foldl (\<lambda>d p. pmake p d a) d (pairs b)) \<and>
       ((\<forall>p\<in>set (pairs b). pmake p = pset p) \<longrightarrow>
          (\<forall>d a. f d a = set_ghost_cells pset b d a))"
    by blast
  moreover from logged trace have "\<exists>f. make_ghost_cell_setter log_axis b = Inr f \<and>
       (\<forall>calls (a::'args). f calls a = calls @ map int [0 ..< nat (num_axes (grid b))] \<and>
          set_ghost_cells log_axis b calls a = calls @ map int [0 ..< nat (num_axes (grid b))])"
    by blast
  ultimately show ?thesis by simp
qed

text \<open>The theorem at the collection of the grid with two axes.\<close>

theorem composed_setter_runs_axes_in_order_witness:
  "\<exists>f. make_ghost_cell_setter log_axis
          \<lparr>self_id = 9, grid = grid_2d, pairs = [pair_x, pair_y]\<rparr> = Inr f \<and>
        f [] () = [0, 1] \<and>
        set_ghost_cells log_axis \<lparr>self_id = 9, grid = grid_2d, pairs = [pair_x, pair_y]\<rparr> [] () =
          [0, 1]"
proof -
  let ?b = "\<lparr>self_id = 9, grid = grid_2d, pairs = [pair_x, pair_y]\<rparr>"
  have ok: "Boundaries_init (=) [pair_x, pair_y] 9 = (Inr ?b, 10)"
    by (simp add: Boundaries_init_def Let_def pair_x_def pair_y_def grid_2d_def)
  have n: "[0 ..< nat (num_axes (grid ?b))] = [0, 1]"
    by (simp add: grid_2d_def upt_rec)
  from composed_setter_runs_axes_in_order [OF ok, THEN conjunct2]
  have "\<exists>f. make_ghost_cell_setter log_axis ?b = Inr f \<and>
      (\<forall>calls a. f calls (a::unit) = calls @ map int [0 ..< nat (num_axes (grid ?b))] \<and>
        set_ghost_cells log_axis ?b calls a = calls @ map int [0 ..< nat (num_axes (grid ?b))])" .
  then obtain f where f: "make_ghost_cell_setter log_axis ?b = Inr f"
    and c: "\<And>calls a. f calls (a::unit) = calls @ map int [0 ..< nat (num_axes (grid ?b))] \<and>
      set_ghost_cells log_axis ?b calls a = calls @ map int [0 ..< nat (num_axes (grid ?b))]"
    by (elim exE conjE) simp
  from c [of "[]" "()"] have "f [] () = [0, 1] \<and> set_ghost_cells log_axis ?b [] () = [0, 1]"
    unfolding n by simp
  with f show ?thesis by (intro exI [of _ f]) simp
qed

subsection \<open>Copy\<close>

lemma copy_values_eq:
  "copy_values vs h = (zip [h ..< h + length vs] (map snd vs), h + length vs)"
proof (induction vs arbitrary: h)
  case Nil
  show ?case by simp
next
  case (Cons x vs)
  obtain a v where x: "x = (a, v)" by (cases x)
  have "[h ..< h + Suc (length vs)] = h # [Suc h ..< Suc h + length vs]"
    by (simp add: upt_rec)
  with x show ?case
    by (simp add: Cons.IH del: upt_Suc)
qed

lemma pair_copy_eq:
  "pair_copy bc h =
     (bc\<lparr>pair_id := h,
         pair_values := zip [Suc h ..< Suc h + length (pair_values bc)] (map snd (pair_values bc))\<rparr>,
      Suc h + length (pair_values bc))"
  by (simp add: pair_copy_def copy_values_eq del: upt_Suc)

lemma pair_copy_addresses:
  assumes "pair_copy bc h = (c, h1)"
  shows "pair_addresses c = [h ..< h1] \<and> h < h1"
proof -
  from assms have c: "pair_addresses c = h # [Suc h ..< Suc h + length (pair_values bc)]"
    and h1: "h1 = Suc h + length (pair_values bc)"
    by (auto simp: pair_copy_eq pair_addresses_def simp del: upt_Suc)
  from h1 have "h < h1" by simp
  then have "[h ..< h1] = h # [Suc h ..< h1]"
    by (rule upt_conv_Cons)
  with c h1 \<open>h < h1\<close> show ?thesis by simp
qed

lemma pair_copy_fields:
  assumes "pair_copy bc h = (c, h1)"
  shows "pair_grid c = pair_grid bc \<and> pair_axis c = pair_axis bc \<and>
    pair_periodic c = pair_periodic bc \<and> map snd (pair_values c) = map snd (pair_values bc)"
  using assms by (auto simp: pair_copy_eq map_snd_zip simp del: upt_Suc)

lemma copy_pairs_length:
  "copy_pairs bs h = (cs, h') \<Longrightarrow> length cs = length bs"
  by (induction bs arbitrary: h cs h') (auto split: prod.splits)

lemma copy_pairs_addresses:
  "copy_pairs bs h = (cs, h') \<Longrightarrow> concat (map pair_addresses cs) = [h ..< h'] \<and> h \<le> h'"
proof (induction bs arbitrary: h cs h')
  case Nil
  then show ?case by simp
next
  case (Cons b bs)
  obtain c h1 where c: "pair_copy b h = (c, h1)" by (cases "pair_copy b h")
  obtain cs' h2 where cs': "copy_pairs bs h1 = (cs', h2)" by (cases "copy_pairs bs h1")
  from Cons.prems c cs' have eq: "cs = c # cs'" "h' = h2" by simp_all
  from pair_copy_addresses [OF c] have 1: "pair_addresses c = [h ..< h1]" "h < h1" by simp_all
  from Cons.IH [OF cs'] have 2: "concat (map pair_addresses cs') = [h1 ..< h2]" "h1 \<le> h2"
    by simp_all
  from 1(2) 2(2) have "[h ..< h1] @ [h1 ..< h2] = [h ..< h2]"
    using upt_add_eq_append [of h h1 "h2 - h1"] by simp
  with eq 1 2 show ?case by simp
qed

lemma copy_pairs_fields:
  "copy_pairs bs h = (cs, h') \<Longrightarrow> i < length bs \<Longrightarrow>
   pair_grid (cs ! i) = pair_grid (bs ! i) \<and> pair_axis (cs ! i) = pair_axis (bs ! i) \<and>
   pair_periodic (cs ! i) = pair_periodic (bs ! i) \<and>
   map snd (pair_values (cs ! i)) = map snd (pair_values (bs ! i))"
proof (induction bs arbitrary: h cs h' i)
  case Nil
  then show ?case by simp
next
  case (Cons b bs)
  obtain c h1 where c: "pair_copy b h = (c, h1)" by (cases "pair_copy b h")
  obtain cs' h2 where cs': "copy_pairs bs h1 = (cs', h2)" by (cases "copy_pairs bs h1")
  from Cons.prems(1) c cs' have eq: "cs = c # cs'" by simp
  show ?case
  proof (cases i)
    case 0
    with eq pair_copy_fields [OF c] show ?thesis by simp
  next
    case (Suc j)
    with Cons.prems(2) have "j < length bs" by simp
    from Cons.IH [OF cs' this] eq Suc show ?thesis by simp
  qed
qed

lemma check_consistency_copy:
  assumes "copy_pairs bs h = (cs, h')"
  shows "check_consistency geq g k cs = None \<longleftrightarrow> check_consistency geq g k bs = None"
  using copy_pairs_length [OF assms] copy_pairs_fields [OF assms]
  by (simp add: check_consistency_None_iff)


lemma copy_result:
  assumes built: "Boundaries_init geq bs h0 = (Inr b, h1)"
    and cp: "copy_pairs (pairs b) h = (cs, hm)"
  shows "copy geq b h = (Inr \<lparr>self_id = hm, grid = grid b, pairs = cs\<rparr>, Suc hm)"
proof -
  from built have ne: "bs \<noteq> []" and b: "pairs b = bs" "grid b = pair_grid (hd bs)"
    and len: "int (length bs) = num_axes (pair_grid (hd bs))"
    and chk: "check_consistency geq (pair_grid (hd bs)) 0 bs = None"
    by (simp_all add: Boundaries_init_Inr_iff)
  from cp b have cp': "copy_pairs bs h = (cs, hm)" by simp
  have clen: "length cs = length bs"
    using cp' by (rule copy_pairs_length)
  with ne have cne: "cs \<noteq> []" by auto
  from ne have "0 < length bs" by simp
  with copy_pairs_fields [OF cp'] have "pair_grid (cs ! 0) = pair_grid (bs ! 0)"
    by blast
  with ne cne have g: "pair_grid (hd cs) = pair_grid (hd bs)"
    by (simp add: hd_conv_nth)
  from chk have "check_consistency geq (pair_grid (hd bs)) 0 cs = None"
    by (simp add: check_consistency_copy [OF cp'])
  with cne g len clen have "Boundaries_init geq cs hm =
      (Inr \<lparr>self_id = hm, grid = pair_grid (hd bs), pairs = cs\<rparr>, Suc hm)"
    by (simp add: Boundaries_init_Inr_iff)
  with cp b show ?thesis
    by (simp add: copy_def)
qed

text \<open>
  C8. For a collection \<open>b\<close> that the constructor has built and whose objects exist
  (their addresses are below the next unused one), \<open>b.copy()\<close> returns a collection
  \<open>c\<close> at a new address, so \<open>c is not b\<close>. Every pair of \<open>c\<close> is a deep copy of
  the pair of \<open>b\<close> at its index: it has the attributes and the grid of that pair and
  value data with the same content, and the pair and each of its value data are new
  objects, at addresses that no pair and no value data of \<open>b\<close> has and that are all
  different. \<open>c\<close> has the grid of \<open>b\<close> and satisfies what the constructor checks;
  \<open>c == b\<close> holds, when a pair with the attributes and the content of the value data
  of another pair is equal to it; and \<open>periodic\<close> of \<open>c\<close> and of \<open>b\<close> is
  \<open>periodic\<close> of the grid.
\<close>

theorem copy_equal_not_identical:
  assumes built: "Boundaries_init geq bs h0 = (Inr b, h1)"
    and alive: "h1 \<le> h" "\<forall>p\<in>set (pairs b). \<forall>a\<in>set (pair_addresses p). a < h"
    and copy_eq: "\<forall>p\<in>set (pairs b). \<forall>q.
      pair_grid q = pair_grid p \<and> pair_axis q = pair_axis p \<and>
      pair_periodic q = pair_periodic p \<and>
      map snd (pair_values q) = map snd (pair_values p) \<longrightarrow> peq q p"
  shows "\<exists>c h'. copy geq b h = (Inr c, h') \<and>
    self_id c \<noteq> self_id b \<and>
    Boundaries_eq geq peq c b \<and>
    length (pairs c) = length (pairs b) \<and>
    (\<forall>i<length (pairs b).
       pair_grid (pairs c ! i) = pair_grid (pairs b ! i) \<and>
       pair_axis (pairs c ! i) = pair_axis (pairs b ! i) \<and>
       pair_periodic (pairs c ! i) = pair_periodic (pairs b ! i) \<and>
       map snd (pair_values (pairs c ! i)) = map snd (pair_values (pairs b ! i))) \<and>
    distinct (self_id c # concat (map pair_addresses (pairs c))) \<and>
    (\<forall>a\<in>set (self_id c # concat (map pair_addresses (pairs c))). h \<le> a \<and> a < h') \<and>
    (\<forall>p\<in>set (pairs c). \<forall>q\<in>set (pairs b).
       set (pair_addresses p) \<inter> set (pair_addresses q) = {}) \<and>
    grid c = grid b \<and>
    pairs c \<noteq> [] \<and> int (length (pairs c)) = num_axes (grid c) \<and>
    (\<forall>i<length (pairs c).
       geq (pair_grid (pairs c ! i)) (grid c) \<and> pair_axis (pairs c ! i) = int i \<and>
       pair_periodic (pairs c ! i) = periodic (grid c) ! i) \<and>
    Boundaries_periodic c = periodic (grid c) \<and>
    Boundaries_periodic b = periodic (grid b) \<and>
    Boundaries_periodic c = Boundaries_periodic b"
proof -
  obtain cs hm where cp: "copy_pairs (pairs b) h = (cs, hm)"
    by (cases "copy_pairs (pairs b) h")
  define c where "c = \<lparr>self_id = hm, grid = grid b, pairs = cs\<rparr>"
  have res: "copy geq b h = (Inr c, Suc hm)"
    unfolding c_def by (rule copy_result [OF built cp])
  from built have b: "pairs b = bs" "self_id b = h0" "h1 = Suc h0" "bs \<noteq> []"
    and inv: "int (length bs) = num_axes (grid b)"
      "\<forall>i<length bs. geq (pair_grid (bs ! i)) (grid b) \<and> pair_axis (bs ! i) = int i \<and>
         pair_periodic (bs ! i) = periodic (grid b) ! i"
    by (auto simp: Boundaries_init_Inr_iff check_consistency_None_iff)
  from cp b have cp': "copy_pairs bs h = (cs, hm)" by simp
  have len: "length cs = length bs"
    using cp' by (rule copy_pairs_length)
  have fields: "pair_grid (cs ! i) = pair_grid (bs ! i) \<and> pair_axis (cs ! i) = pair_axis (bs ! i) \<and>
      pair_periodic (cs ! i) = pair_periodic (bs ! i) \<and>
      map snd (pair_values (cs ! i)) = map snd (pair_values (bs ! i))" if "i < length bs" for i
    using cp' that by (rule copy_pairs_fields)
  have addrs: "concat (map pair_addresses cs) = [h ..< hm]" and mono: "h \<le> hm"
    using copy_pairs_addresses [OF cp'] by simp_all
  from alive(1) b mono have new: "self_id c \<noteq> self_id b"
    by (simp add: c_def)
  from b inv have "geq (pair_grid (bs ! 0)) (grid b)" by simp
  moreover from built b have "grid b = pair_grid (bs ! 0)"
    by (simp add: Boundaries_init_Inr_iff hd_conv_nth)
  ultimately have refl: "geq (grid b) (grid b)" by simp
  have "list_all2 (\<lambda>x y. x = y \<or> peq x y) cs bs"
    unfolding list_all2_conv_all_nth
  proof (intro conjI allI impI)
    show "length cs = length bs" by (rule len)
  next
    fix i
    assume "i < length cs"
    with len have i: "i < length bs" by simp
    with b have "bs ! i \<in> set (pairs b)" by simp
    with copy_eq fields [OF i] have "peq (cs ! i) (bs ! i)" by blast
    then show "cs ! i = bs ! i \<or> peq (cs ! i) (bs ! i)" ..
  qed
  with refl b have eq: "Boundaries_eq geq peq c b"
    by (simp add: Boundaries_eq_def c_def)
  have dist: "distinct (self_id c # concat (map pair_addresses (pairs c)))"
    by (simp add: c_def addrs)
  have fresh: "\<forall>a\<in>set (self_id c # concat (map pair_addresses (pairs c))). h \<le> a \<and> a < Suc hm"
    using mono by (auto simp: c_def addrs)
  have apart: "\<forall>p\<in>set (pairs c). \<forall>q\<in>set (pairs b).
      set (pair_addresses p) \<inter> set (pair_addresses q) = {}"
  proof (intro ballI)
    fix p q
    assume p: "p \<in> set (pairs c)" and q: "q \<in> set (pairs b)"
    from p have "set (pair_addresses p) \<subseteq> set (concat (map pair_addresses cs))"
      by (auto simp: c_def)
    with addrs have "\<forall>a\<in>set (pair_addresses p). h \<le> a" by auto
    with alive(2) q show "set (pair_addresses p) \<inter> set (pair_addresses q) = {}"
      by fastforce
  qed
  have invc: "\<forall>i<length (pairs c).
       geq (pair_grid (pairs c ! i)) (grid c) \<and> pair_axis (pairs c ! i) = int i \<and>
       pair_periodic (pairs c ! i) = periodic (grid c) ! i"
    using inv(2) fields by (simp add: c_def len)
  have fieldsc: "\<forall>i<length (pairs b).
       pair_grid (pairs c ! i) = pair_grid (pairs b ! i) \<and>
       pair_axis (pairs c ! i) = pair_axis (pairs b ! i) \<and>
       pair_periodic (pairs c ! i) = pair_periodic (pairs b ! i) \<and>
       map snd (pair_values (pairs c ! i)) = map snd (pair_values (pairs b ! i))"
    using fields by (simp add: c_def b)
  have lenc: "length (pairs c) = length (pairs b)"
    by (simp add: c_def b len)
  have g: "grid c = grid b" by (simp add: c_def)
  from b lenc have ne: "pairs c \<noteq> []" by auto
  from inv(1) lenc b g have cnt: "int (length (pairs c)) = num_axes (grid c)" by simp
  have per: "Boundaries_periodic c = periodic (grid c)"
    "Boundaries_periodic b = periodic (grid b)"
    "Boundaries_periodic c = Boundaries_periodic b"
    by (simp_all add: Boundaries_periodic_def g)
  show ?thesis
    apply (rule exI [of _ c], rule exI [of _ "Suc hm"])
    apply (intro conjI)
    apply (rule res new eq lenc fieldsc dist fresh apart g ne cnt invc per)+
    done
qed


text \<open>
  The theorem at the collection of the grid with two axes, built at address 9, and
  copied when the next unused address is 10.
\<close>

theorem copy_equal_not_identical_witness:
  "copy (=) \<lparr>self_id = 9, grid = grid_2d, pairs = [pair_x, pair_y]\<rparr> 10 =
     (Inr \<lparr>self_id = 15, grid = grid_2d,
        pairs = [pair_x\<lparr>pair_id := 10, pair_values := [(11, ''neumann''), (12, ''neumann'')]\<rparr>,
                 pair_y\<lparr>pair_id := 13, pair_values := [(14, ''periodic'')]\<rparr>]\<rparr>, 16) \<and>
   Boundaries_eq (=) pair_eq_by_value
     \<lparr>self_id = 15, grid = grid_2d,
        pairs = [pair_x\<lparr>pair_id := 10, pair_values := [(11, ''neumann''), (12, ''neumann'')]\<rparr>,
                 pair_y\<lparr>pair_id := 13, pair_values := [(14, ''periodic'')]\<rparr>]\<rparr>
     \<lparr>self_id = 9, grid = grid_2d, pairs = [pair_x, pair_y]\<rparr> \<and>
   set (pair_addresses (pair_x\<lparr>pair_id := 10,
          pair_values := [(11, ''neumann''), (12, ''neumann'')]\<rparr>)) \<inter>
     set (pair_addresses pair_x) = {} \<and>
   Boundaries_periodic
     \<lparr>self_id = 15, grid = grid_2d,
        pairs = [pair_x\<lparr>pair_id := 10, pair_values := [(11, ''neumann''), (12, ''neumann'')]\<rparr>,
                 pair_y\<lparr>pair_id := 13, pair_values := [(14, ''periodic'')]\<rparr>]\<rparr> =
     periodic grid_2d"
proof -
  let ?b = "\<lparr>self_id = 9, grid = grid_2d, pairs = [pair_x, pair_y]\<rparr>"
  let ?cx = "pair_x\<lparr>pair_id := 10, pair_values := [(11, ''neumann''), (12, ''neumann'')]\<rparr>"
  let ?cy = "pair_y\<lparr>pair_id := 13, pair_values := [(14, ''periodic'')]\<rparr>"
  let ?c = "\<lparr>self_id = 15, grid = grid_2d, pairs = [?cx, ?cy]\<rparr>"
  have ok: "Boundaries_init (=) [pair_x, pair_y] 9 = (Inr ?b, 10)"
    by (simp add: Boundaries_init_def Let_def pair_x_def pair_y_def grid_2d_def)
  have alive: "(10::nat) \<le> 10" "\<forall>p\<in>set (pairs ?b). \<forall>a\<in>set (pair_addresses p). a < 10"
    by (simp_all add: pair_x_def pair_y_def pair_addresses_def)
  have copy_eq: "\<forall>p\<in>set (pairs ?b). \<forall>q.
      pair_grid q = pair_grid p \<and> pair_axis q = pair_axis p \<and>
      pair_periodic q = pair_periodic p \<and>
      map snd (pair_values q) = map snd (pair_values p) \<longrightarrow> pair_eq_by_value q p"
    by (simp add: pair_eq_by_value_def)
  have run: "copy (=) ?b 10 = (Inr ?c, 16)"
    by (simp add: copy_def pair_copy_def Boundaries_init_def Let_def pair_x_def pair_y_def
        grid_2d_def)
  from copy_equal_not_identical [OF ok alive copy_eq] run
  have "Boundaries_eq (=) pair_eq_by_value ?c ?b \<and>
      Boundaries_periodic ?c = periodic (grid ?c) \<and>
      (\<forall>p\<in>set (pairs ?c). \<forall>q\<in>set (pairs ?b).
         set (pair_addresses p) \<inter> set (pair_addresses q) = {})"
    by auto
  then have "Boundaries_eq (=) pair_eq_by_value ?c ?b \<and>
      Boundaries_periodic ?c = periodic grid_2d \<and>
      set (pair_addresses ?cx) \<inter> set (pair_addresses pair_x) = {}"
    by simp
  with run show ?thesis by simp
qed

end
